theory Spec2Isabelle
  imports Complex_Main
begin

section \<open>Messages shown by the dashboard\<close>

text \<open>
  The script reports to the user through \<^verbatim>\<open>st.error\<close>, \<^verbatim>\<open>st.warning\<close>,
  \<^verbatim>\<open>st.success\<close> and \<^verbatim>\<open>st.info\<close>. A run of the script is modelled as the list of
  messages it emits, in order.
\<close>

datatype message = StError string | StWarning string | StSuccess string | StInfo string

text \<open>Python's \<^verbatim>\<open>sep.join(xs)\<close>.\<close>

fun join :: "string \<Rightarrow> string list \<Rightarrow> string" where
  "join sep [] = []"
| "join sep [x] = x"
| "join sep (x # y # ys) = x @ sep @ join sep (y # ys)"

section \<open>Impact warning on submission (app.py, lines 24 to 39)\<close>

text \<open>The list \<^verbatim>\<open>[("Wealth", w), ("Health", h), ("Self", s)]\<close> both comprehensions run over.\<close>

definition sectors :: "int \<Rightarrow> int \<Rightarrow> int \<Rightarrow> (string \<times> int) list" where
  "sectors w h s = [(''Wealth'', w), (''Health'', h), (''Self'', s)]"

definition negative :: "int \<Rightarrow> int \<Rightarrow> int \<Rightarrow> string list" where
  "negative w h s = map fst (filter (\<lambda>(name, val). val < 0) (sectors w h s))"

definition zero :: "int \<Rightarrow> int \<Rightarrow> int \<Rightarrow> string list" where
  "zero w h s = map fst (filter (\<lambda>(name, val). val = 0) (sectors w h s))"

text \<open>
  \<^verbatim>\<open>if negative: st.error(...) elif zero: st.warning(...)\<close>: a non-empty list is true.
\<close>

definition impact_warning :: "int \<Rightarrow> int \<Rightarrow> int \<Rightarrow> message list" where
  "impact_warning w h s =
     (if negative w h s \<noteq> [] then
        [StError (''Negative impact on: '' @ join '', '' (negative w h s))]
      else if zero w h s \<noteq> [] then
        [StWarning (''No benefit to: '' @ join '', '' (zero w h s))]
      else [])"

definition is_error :: "message \<Rightarrow> bool" where
  "is_error m = (case m of StError _ \<Rightarrow> True | _ \<Rightarrow> False)"

definition is_warning :: "message \<Rightarrow> bool" where
  "is_warning m = (case m of StWarning _ \<Rightarrow> True | _ \<Rightarrow> False)"

section \<open>Values, frames and the library interface\<close>

text \<open>
  A \<^verbatim>\<open>pd.Timestamp\<close> without time zone: a calendar day (as a day number) and the time
  of day in nanoseconds. \<^verbatim>\<open>normalize()\<close> resets the time of day to midnight, so two
  timestamps have the same calendar date exactly when their normalizations are equal.
\<close>

record timestamp =
  day :: int
  tod :: nat

definition normalize_ts :: "timestamp \<Rightarrow> timestamp" where
  "normalize_ts t = t\<lparr>tod := 0\<rparr>"

text \<open>
  The values a DataFrame cell of this program can hold: text, an integer, a float, a
  boolean, the missing value \<^verbatim>\<open>NaN\<close>, a timestamp, and the invalid timestamp
  \<^verbatim>\<open>NaT\<close>.
\<close>

datatype cell = StrC string | IntC int | FltC real | BoolC bool | NaN | TimeC timestamp | NaT

datatype error =
  FileNotFoundError | EmptyDataError | ParserError | KeyError string | TypeError | AttributeError

text \<open>
  A DataFrame with the default index: the column labels in order, and the rows in order,
  each row a map from column label to value.
\<close>

record frame =
  columns :: "string list"
  rows :: "(string \<rightharpoonup> cell) list"

text \<open>\<^verbatim>\<open>df.empty\<close>: true when either axis has length 0.\<close>

definition empty_df :: "frame \<Rightarrow> bool" where
  "empty_df df = (rows df = [] \<or> columns df = [])"

text \<open>\<^verbatim>\<open>df[name]\<close>: the column as a list, \<^verbatim>\<open>KeyError\<close> when there is no such label.\<close>

definition getcol :: "frame \<Rightarrow> string \<Rightarrow> error + cell list" where
  "getcol df name =
     (if name \<in> set (columns df)
      then Inr (map (\<lambda>r. case r name of None \<Rightarrow> NaN | Some c \<Rightarrow> c) (rows df))
      else Inl (KeyError name))"

text \<open>
  \<^verbatim>\<open>df[name] = values\<close>: replaces the column, or adds it as the last one. The values
  are aligned with the rows.
\<close>

definition setcol :: "frame \<Rightarrow> string \<Rightarrow> cell list \<Rightarrow> frame" where
  "setcol df name vs =
     \<lparr>columns = (if name \<in> set (columns df) then columns df else columns df @ [name]),
      rows = map (\<lambda>(r, v). r(name \<mapsto> v)) (zip (rows df) vs)\<rparr>"

text \<open>
  What the program leaves to pandas and what this development does not fix: how a CSV
  field is recognised as a floating-point number and how a float is printed, how a value
  is converted to a timestamp (\<^verbatim>\<open>pd.to_datetime\<close>, \<open>None\<close> when it cannot be), and how
  a timestamp is printed. Every definition below that depends on one of them takes this
  record as its first argument, and every theorem holds for all of them.
\<close>

record lib =
  to_float :: "string \<Rightarrow> real option"
  fmt_float :: "real \<Rightarrow> string"
  to_time :: "cell \<Rightarrow> timestamp option"
  fmt_time :: "timestamp \<Rightarrow> string"

section \<open>Printing integers\<close>

text \<open>Python's \<^verbatim>\<open>str(n)\<close> for an integer: decimal digits, a minus sign when negative.\<close>

definition digit_char :: "nat \<Rightarrow> char" where
  "digit_char d = ''0123456789'' ! d"

function digits :: "nat \<Rightarrow> string" where
  "digits n = (if n < 10 then [digit_char n] else digits (n div 10) @ [digit_char (n mod 10)])"
  by pat_completeness auto
termination
  by (relation "measure id") auto

declare digits.simps [simp del]

definition str_int :: "int \<Rightarrow> string" where
  "str_int n = (if n < 0 then CHR ''-'' # digits (nat (- n)) else digits (nat n))"

section \<open>The entry form (app.py, lines 15 to 22)\<close>

text \<open>The values of the five widgets when the form is submitted.\<close>

record entry =
  decision :: string
  category :: string
  wealth :: int
  health :: int
  self :: int

definition categories :: "string list" where
  "categories = [''Work'', ''Personal'', ''Health goal'', ''Finance'', ''Other'']"

text \<open>
  What the widgets can return: any text, one of the five categories, and three slider
  values between -100 and 100.
\<close>

definition form_entry :: "entry \<Rightarrow> bool" where
  "form_entry e =
     (category e \<in> set categories
      \<and> - 100 \<le> wealth e \<and> wealth e \<le> 100
      \<and> - 100 \<le> health e \<and> health e \<le> 100
      \<and> - 100 \<le> self e \<and> self e \<le> 100)"

section \<open>Appending the entry to the CSV file (app.py, lines 41 to 56)\<close>

text \<open>
  The file \<^verbatim>\<open>data.csv\<close> is modelled by its parsed content: \<open>None\<close> when the file does
  not exist, otherwise its rows in order, each row the list of its fields. The quoting
  that \<^verbatim>\<open>to_csv\<close> applies to a field with a comma or a quote, and that \<^verbatim>\<open>read_csv\<close>
  undoes, is below this level.
\<close>

type_synonym csv_row = "string list"
type_synonym store = "csv_row list option"

text \<open>\<^verbatim>\<open>DATA_PATH.exists()\<close>.\<close>

definition path_exists :: "store \<Rightarrow> bool" where
  "path_exists st = (st \<noteq> None)"

text \<open>The one-row frame built from the form values and \<^verbatim>\<open>pd.Timestamp.now()\<close>.\<close>

definition df_new :: "entry \<Rightarrow> timestamp \<Rightarrow> frame" where
  "df_new e now =
     \<lparr>columns = [''Decision'', ''Category'', ''Wealth'', ''Health'', ''Self'', ''Time''],
      rows = [[''Decision'' \<mapsto> StrC (decision e),
               ''Category'' \<mapsto> StrC (category e),
               ''Wealth'' \<mapsto> IntC (wealth e),
               ''Health'' \<mapsto> IntC (health e),
               ''Self'' \<mapsto> IntC (self e),
               ''Time'' \<mapsto> TimeC now]]\<rparr>"

text \<open>How \<^verbatim>\<open>to_csv\<close> writes one value: a missing value is the empty field.\<close>

definition csv_field :: "lib \<Rightarrow> cell \<Rightarrow> string" where
  "csv_field L c =
     (case c of
        StrC s \<Rightarrow> s
      | IntC n \<Rightarrow> str_int n
      | FltC x \<Rightarrow> fmt_float L x
      | BoolC b \<Rightarrow> (if b then ''True'' else ''False'')
      | NaN \<Rightarrow> []
      | TimeC t \<Rightarrow> fmt_time L t
      | NaT \<Rightarrow> [])"

definition csv_line :: "lib \<Rightarrow> string list \<Rightarrow> (string \<rightharpoonup> cell) \<Rightarrow> csv_row" where
  "csv_line L cols r = map (\<lambda>c. case r c of None \<Rightarrow> [] | Some v \<Rightarrow> csv_field L v) cols"

text \<open>
  \<^verbatim>\<open>df.to_csv(path, mode="a", index=False, header=hdr)\<close>: the file is created when it
  does not exist; the column labels are written as a row when \<open>hdr\<close> is true; then one
  row per row of the frame, after whatever the file held.
\<close>

definition to_csv :: "lib \<Rightarrow> frame \<Rightarrow> store \<Rightarrow> bool \<Rightarrow> store" where
  "to_csv L df st hdr =
     Some ((case st of None \<Rightarrow> [] | Some ls \<Rightarrow> ls)
           @ (if hdr then [columns df] else [])
           @ map (csv_line L (columns df)) (rows df))"

text \<open>
  The append of the submit block. The argument \<^verbatim>\<open>header=not DATA_PATH.exists()\<close> is
  evaluated before \<^verbatim>\<open>to_csv\<close> opens the file.
\<close>

definition append_entry :: "lib \<Rightarrow> entry \<Rightarrow> timestamp \<Rightarrow> store \<Rightarrow> store" where
  "append_entry L e now st = to_csv L (df_new e now) st (\<not> path_exists st)"

text \<open>The whole submit block: the warning, the append, the success message.\<close>

definition submit_block :: "lib \<Rightarrow> entry \<Rightarrow> timestamp \<Rightarrow> store \<Rightarrow> message list \<times> store" where
  "submit_block L e now st =
     (impact_warning (wealth e) (health e) (self e) @ [StSuccess ''Decision logged!''],
      append_entry L e now st)"

text \<open>The header row of the file, and the row one entry is written as.\<close>

definition header_row :: csv_row where
  "header_row = [''Decision'', ''Category'', ''Wealth'', ''Health'', ''Self'', ''Time'']"

definition entry_row :: "lib \<Rightarrow> entry \<Rightarrow> timestamp \<Rightarrow> csv_row" where
  "entry_row L e now =
     [decision e, category e, str_int (wealth e), str_int (health e), str_int (self e),
      fmt_time L now]"

text \<open>
  The layout invariant of the file: when it exists, its first row is the header row and
  no later row is.
\<close>

definition one_header :: "store \<Rightarrow> bool" where
  "one_header st =
     (case st of
        None \<Rightarrow> True
      | Some [] \<Rightarrow> False
      | Some (l # ls) \<Rightarrow> l = header_row \<and> header_row \<notin> set ls)"

section \<open>Reading the CSV file back (app.py, line 60)\<close>

text \<open>
  \<^verbatim>\<open>pd.read_csv\<close> with its defaults. A field that is one of the default missing-value
  strings is read as \<^verbatim>\<open>NaN\<close>; the empty field is one of them.
\<close>

definition na_values :: "string list" where
  "na_values =
     ['''', ''#N/A'', ''#N/A N/A'', ''#NA'', ''-1.#IND'', ''-1.#QNAN'', ''-NaN'', ''-nan'',
      ''1.#IND'', ''1.#QNAN'', ''<NA>'', ''N/A'', ''NA'', ''NULL'', ''NaN'', ''None'', ''n/a'',
      ''nan'', ''null'']"

definition is_na :: "string \<Rightarrow> bool" where
  "is_na s = (s \<in> set na_values)"

text \<open>
  An integer field: optional white space, an optional sign, at least one decimal digit,
  optional white space, and a value that fits 64 bits.
\<close>

definition is_space :: "char \<Rightarrow> bool" where
  "is_space c = (c \<in> set [CHR '' '', CHR 0x09, CHR 0x0A, CHR 0x0B, CHR 0x0C, CHR 0x0D])"

definition strip :: "string \<Rightarrow> string" where
  "strip s = rev (dropWhile is_space (rev (dropWhile is_space s)))"

definition digit_val :: "char \<Rightarrow> nat option" where
  "digit_val c = map_of (zip ''0123456789'' [0, 1, 2, 3, 4, 5, 6, 7, 8, 9]) c"

fun nat_of_digits :: "nat \<Rightarrow> string \<Rightarrow> nat option" where
  "nat_of_digits acc [] = Some acc"
| "nat_of_digits acc (c # cs) =
     (case digit_val c of None \<Rightarrow> None | Some d \<Rightarrow> nat_of_digits (10 * acc + d) cs)"

definition signed_digits :: "string \<Rightarrow> int option" where
  "signed_digits t =
     (case t of
        [] \<Rightarrow> None
      | c # cs \<Rightarrow>
          if c = CHR ''-'' then
            (if cs = [] then None else map_option (\<lambda>n. - int n) (nat_of_digits 0 cs))
          else if c = CHR ''+'' then
            (if cs = [] then None else map_option int (nat_of_digits 0 cs))
          else map_option int (nat_of_digits 0 t))"

definition to_int :: "string \<Rightarrow> int option" where
  "to_int s =
     (case signed_digits (strip s) of
        None \<Rightarrow> None
      | Some v \<Rightarrow> if - (2 ^ 63) \<le> v \<and> v < 2 ^ 63 then Some v else None)"

text \<open>A field as a float: an integer field, or what the library's float reader accepts.\<close>

definition num_of :: "lib \<Rightarrow> string \<Rightarrow> real option" where
  "num_of L s = (case to_int s of Some n \<Rightarrow> Some (real_of_int n) | None \<Rightarrow> to_float L s)"

text \<open>A boolean field: \<^verbatim>\<open>true\<close> or \<^verbatim>\<open>false\<close> in any mix of cases.\<close>

fun ci_match :: "(char \<times> char) list \<Rightarrow> string \<Rightarrow> bool" where
  "ci_match [] [] = True"
| "ci_match ((l, u) # ps) (c # cs) = ((c = l \<or> c = u) \<and> ci_match ps cs)"
| "ci_match _ _ = False"

definition true_word :: "string \<Rightarrow> bool" where
  "true_word s = ci_match (zip ''true'' ''TRUE'') s"

definition false_word :: "string \<Rightarrow> bool" where
  "false_word s = ci_match (zip ''false'' ''FALSE'') s"

text \<open>
  The type of a column is inferred from all its fields, in this order: integers when
  every field is an integer and none is missing; floats when every field is a number or
  missing; booleans when every field is a boolean word or missing; text otherwise.
\<close>

datatype dtype = Int64 | Float64 | BoolT | Object

definition infer_dtype :: "lib \<Rightarrow> string list \<Rightarrow> dtype" where
  "infer_dtype L fs =
     (if list_all (\<lambda>s. \<not> is_na s \<and> to_int s \<noteq> None) fs then Int64
      else if list_all (\<lambda>s. is_na s \<or> num_of L s \<noteq> None) fs then Float64
      else if list_all (\<lambda>s. is_na s \<or> true_word s \<or> false_word s) fs then BoolT
      else Object)"

definition convert :: "lib \<Rightarrow> dtype \<Rightarrow> string \<Rightarrow> cell" where
  "convert L dt s =
     (case dt of
        Int64 \<Rightarrow> (case to_int s of Some n \<Rightarrow> IntC n | None \<Rightarrow> NaN)
      | Float64 \<Rightarrow>
          (if is_na s then NaN else case num_of L s of Some x \<Rightarrow> FltC x | None \<Rightarrow> NaN)
      | BoolT \<Rightarrow> (if is_na s then NaN else BoolC (true_word s))
      | Object \<Rightarrow> (if is_na s then NaN else StrC s))"

text \<open>
  The shape of the table. Blank lines are skipped. The first remaining row holds the
  column labels. When the first data row has more fields than there are labels, its
  extra leading fields are index columns (and are not among the columns); a later row
  with still more fields is a parse error; a row with fewer fields is filled up with
  missing values. The labels are taken as they stand: pandas renames an empty or
  repeated label, which no file written by this program has.
\<close>

definition blank_line :: "csv_row \<Rightarrow> bool" where
  "blank_line r = (r = [] \<or> r = [[]])"

definition pad :: "nat \<Rightarrow> csv_row \<Rightarrow> csv_row" where
  "pad n r = r @ replicate (n - length r) []"

definition column_fields :: "csv_row list \<Rightarrow> nat \<Rightarrow> string list" where
  "column_fields rs j = map (\<lambda>r. r ! j) rs"

definition typed_row :: "lib \<Rightarrow> string list \<Rightarrow> dtype list \<Rightarrow> csv_row \<Rightarrow> (string \<rightharpoonup> cell)" where
  "typed_row L hdr dts r = map_of (zip hdr (map (\<lambda>(dt, s). convert L dt s) (zip dts r)))"

definition read_csv :: "lib \<Rightarrow> store \<Rightarrow> error + frame" where
  "read_csv L st =
     (case st of
        None \<Rightarrow> Inl FileNotFoundError
      | Some ls \<Rightarrow>
          (case filter (\<lambda>r. \<not> blank_line r) ls of
             [] \<Rightarrow> Inl EmptyDataError
           | hdr # body \<Rightarrow>
               (let n = length hdr;
                    lead = (case body of [] \<Rightarrow> 0 | r # _ \<Rightarrow> length r - n)
                in if list_ex (\<lambda>r. n + lead < length r) body then Inl ParserError
                   else
                     (let data = map (\<lambda>r. drop lead (pad (n + lead) r)) body;
                          dts = map (\<lambda>j. infer_dtype L (column_fields data j)) [0..<n]
                      in Inr \<lparr>columns = hdr, rows = map (typed_row L hdr dts) data\<rparr>))))"

section \<open>Loading the history (app.py, lines 58 to 72)\<close>

text \<open>Sequencing of steps that can raise: the first error ends the run.\<close>

definition e_bind :: "error + 'a \<Rightarrow> ('a \<Rightarrow> error + 'b) \<Rightarrow> error + 'b" where
  "e_bind m f = (case m of Inl e \<Rightarrow> Inl e | Inr x \<Rightarrow> f x)"

text \<open>
  \<^verbatim>\<open>try: df = pd.read_csv(DATA_PATH) except FileNotFoundError: df = pd.DataFrame(columns=[...])\<close>.
  Only the missing file is caught; any other error of \<^verbatim>\<open>read_csv\<close> ends the run.
\<close>

definition read_history :: "lib \<Rightarrow> store \<Rightarrow> error + frame" where
  "read_history L st =
     (case read_csv L st of
        Inl FileNotFoundError \<Rightarrow>
          Inr \<lparr>columns = [''Decision'', ''Category'', ''Wealth'', ''Health'', ''Self'', ''Time''],
               rows = []\<rparr>
      | Inl e \<Rightarrow> Inl e
      | Inr df \<Rightarrow> Inr df)"

text \<open>\<^verbatim>\<open>if "Category" not in df.columns: df["Category"] = "Uncategorized"\<close>.\<close>

definition ensure_category :: "frame \<Rightarrow> frame" where
  "ensure_category df =
     (if ''Category'' \<notin> set (columns df)
      then setcol df ''Category'' (replicate (length (rows df)) (StrC ''Uncategorized''))
      else df)"

text \<open>
  \<^verbatim>\<open>pd.to_datetime(..., errors="coerce")\<close> on one value: what cannot be converted
  becomes \<^verbatim>\<open>NaT\<close>.
\<close>

definition to_datetime :: "lib \<Rightarrow> cell \<Rightarrow> cell" where
  "to_datetime L c = (case to_time L c of None \<Rightarrow> NaT | Some t \<Rightarrow> TimeC t)"

text \<open>\<^verbatim>\<open>if not df.empty: df["Time"] = pd.to_datetime(df["Time"], errors="coerce")\<close>.\<close>

definition parse_time :: "lib \<Rightarrow> frame \<Rightarrow> error + frame" where
  "parse_time L df =
     (if \<not> empty_df df
      then e_bind (getcol df ''Time'') (\<lambda>ts. Inr (setcol df ''Time'' (map (to_datetime L) ts)))
      else Inr df)"

definition load_history :: "lib \<Rightarrow> store \<Rightarrow> error + frame" where
  "load_history L st = e_bind (read_history L st) (\<lambda>df. parse_time L (ensure_category df))"

section \<open>The summary (app.py, lines 74 to 93)\<close>

text \<open>A list of results that can each be an error: the first error, or all the values.\<close>

fun collect :: "(error + 'a) list \<Rightarrow> error + 'a list" where
  "collect [] = Inr []"
| "collect (x # xs) = e_bind x (\<lambda>v. e_bind (collect xs) (\<lambda>vs. Inr (v # vs)))"

text \<open>\<^verbatim>\<open>df[mask]\<close> with a boolean mask aligned with the rows: the rows marked true, in order.\<close>

definition select_rows :: "frame \<Rightarrow> bool list \<Rightarrow> frame" where
  "select_rows df m = df\<lparr>rows := map fst (filter snd (zip (rows df) m))\<rparr>"

text \<open>
  \<^verbatim>\<open>df["Time"].dt.normalize()\<close>: the accessor exists for a column of timestamps only;
  \<^verbatim>\<open>NaT\<close> stays \<^verbatim>\<open>NaT\<close>.
\<close>

definition is_datetime :: "cell \<Rightarrow> bool" where
  "is_datetime c = (case c of TimeC _ \<Rightarrow> True | NaT \<Rightarrow> True | _ \<Rightarrow> False)"

definition dt_normalize :: "cell list \<Rightarrow> error + cell list" where
  "dt_normalize cs =
     (if list_all is_datetime cs
      then Inr (map (\<lambda>c. case c of TimeC t \<Rightarrow> TimeC (normalize_ts t) | _ \<Rightarrow> NaT) cs)
      else Inl AttributeError)"

text \<open>
  \<^verbatim>\<open>today = pd.Timestamp.now().normalize()\<close>,
  \<^verbatim>\<open>df_today = df[df["Time"].dt.normalize() == today]\<close>, \<^verbatim>\<open>len(df_today)\<close>.
  The comparison of \<^verbatim>\<open>NaT\<close> with a timestamp is false.
\<close>

definition count_today :: "timestamp \<Rightarrow> frame \<Rightarrow> error + nat" where
  "count_today now df =
     e_bind (getcol df ''Time'') (\<lambda>ts.
     e_bind (dt_normalize ts) (\<lambda>ns.
     Inr (length (rows (select_rows df (map (\<lambda>c. c = TimeC (normalize_ts now)) ns))))))"

text \<open>
  The numeric value of a cell in an aggregation: a boolean counts as 0 or 1, a missing
  value is skipped, text is a \<^verbatim>\<open>TypeError\<close>. (No column this is applied to holds
  timestamps.)
\<close>

definition num_val :: "cell \<Rightarrow> error + real option" where
  "num_val c =
     (case c of
        IntC n \<Rightarrow> Inr (Some (real_of_int n))
      | FltC x \<Rightarrow> Inr (Some x)
      | BoolC b \<Rightarrow> Inr (Some (if b then 1 else 0))
      | NaN \<Rightarrow> Inr None
      | _ \<Rightarrow> Inl TypeError)"

text \<open>The mean of a list of numbers; \<open>None\<close> stands for the \<^verbatim>\<open>nan\<close> of an empty one.\<close>

definition mean :: "real list \<Rightarrow> real option" where
  "mean xs = (if xs = [] then None else Some (sum_list xs / real (length xs)))"

text \<open>\<^verbatim>\<open>df["Wealth"].mean()\<close>: missing values are skipped.\<close>

definition mean_wealth :: "frame \<Rightarrow> error + real option" where
  "mean_wealth df =
     e_bind (getcol df ''Wealth'') (\<lambda>ws.
     e_bind (collect (map num_val ws)) (\<lambda>vs.
     Inr (mean (List.map_filter (\<lambda>v. v) vs))))"

text \<open>
  The attribute access \<^verbatim>\<open>r.Wealth\<close> on a row, and the comparison \<^verbatim>\<open>val < 0\<close>:
  false for a missing value, a \<^verbatim>\<open>TypeError\<close> for text.
\<close>

definition row_attr :: "frame \<Rightarrow> (string \<rightharpoonup> cell) \<Rightarrow> string \<Rightarrow> error + cell" where
  "row_attr df r name =
     (if name \<in> set (columns df)
      then Inr (case r name of None \<Rightarrow> NaN | Some c \<Rightarrow> c)
      else Inl AttributeError)"

definition lt_zero :: "cell \<Rightarrow> error + bool" where
  "lt_zero c =
     (case c of
        IntC n \<Rightarrow> Inr (n < 0)
      | FltC x \<Rightarrow> Inr (x < 0)
      | BoolC b \<Rightarrow> Inr False
      | NaN \<Rightarrow> Inr False
      | _ \<Rightarrow> Inl TypeError)"

text \<open>\<^verbatim>\<open>lambda r: sum(val < 0 for val in [r.Wealth, r.Health, r.Self])\<close>.\<close>

definition neg_flags :: "frame \<Rightarrow> (string \<rightharpoonup> cell) \<Rightarrow> error + nat" where
  "neg_flags df r =
     e_bind (collect (map (row_attr df r) [''Wealth'', ''Health'', ''Self''])) (\<lambda>vals.
     e_bind (collect (map lt_zero vals)) (\<lambda>bs.
     Inr (length (filter (\<lambda>b. b) bs))))"

text \<open>\<^verbatim>\<open>df.apply(..., axis=1).mean()\<close>, on a frame that is not empty.\<close>

definition mean_neg_flags :: "frame \<Rightarrow> error + real" where
  "mean_neg_flags df =
     e_bind (collect (map (neg_flags df) (rows df))) (\<lambda>ns.
     Inr (real (sum_list ns) / real (length ns)))"

record summary =
  decisions_today :: nat
  avg_wealth :: "real option"
  avg_neg_flags :: real

definition summarize :: "timestamp \<Rightarrow> frame \<Rightarrow> error + summary" where
  "summarize now df =
     (if \<not> empty_df df then
        e_bind (count_today now df) (\<lambda>n.
        e_bind (mean_wealth df) (\<lambda>a.
        e_bind (mean_neg_flags df) (\<lambda>f.
        Inr \<lparr>decisions_today = n, avg_wealth = a, avg_neg_flags = f\<rparr>)))
      else Inr \<lparr>decisions_today = 0, avg_wealth = Some 0, avg_neg_flags = 0\<rparr>)"

section \<open>Shifted scores, selection and charts (app.py, lines 95 to 146)\<close>

text \<open>\<^verbatim>\<open>df["w2"] = df["Wealth"] + 100\<close> and its two siblings.\<close>

definition plus100 :: "cell \<Rightarrow> error + cell" where
  "plus100 c =
     (case c of
        IntC n \<Rightarrow> Inr (IntC (n + 100))
      | FltC x \<Rightarrow> Inr (FltC (x + 100))
      | BoolC b \<Rightarrow> Inr (IntC ((if b then 1 else 0) + 100))
      | NaN \<Rightarrow> Inr NaN
      | _ \<Rightarrow> Inl TypeError)"

definition shift_col :: "frame \<Rightarrow> string \<Rightarrow> string \<Rightarrow> error + frame" where
  "shift_col df src dst =
     e_bind (getcol df src) (\<lambda>vs.
     e_bind (collect (map plus100 vs)) (\<lambda>xs.
     Inr (setcol df dst xs)))"

definition add_shifted :: "frame \<Rightarrow> error + frame" where
  "add_shifted df =
     e_bind (shift_col df ''Wealth'' ''w2'') (\<lambda>d1.
     e_bind (shift_col d1 ''Health'' ''h2'') (\<lambda>d2.
     shift_col d2 ''Self'' ''s2''))"

text \<open>\<^verbatim>\<open>Series.unique()\<close>: the distinct values in order of first appearance.\<close>

fun unique_from :: "'a list \<Rightarrow> 'a list \<Rightarrow> 'a list" where
  "unique_from seen [] = []"
| "unique_from seen (x # xs) =
     (if x \<in> set seen then unique_from seen xs else x # unique_from (x # seen) xs)"

definition unique :: "'a list \<Rightarrow> 'a list" where
  "unique xs = unique_from [] xs"

definition decision_options :: "frame \<Rightarrow> error + cell list" where
  "decision_options df = e_bind (getcol df ''Decision'') (\<lambda>ds. Inr (unique ds))"

text \<open>
  \<^verbatim>\<open>st.multiselect(label, options, default=...)\<close>: the default until the user changes
  the selection (\<open>None\<close>), then the options the user picked.
\<close>

definition multiselect :: "cell list \<Rightarrow> cell list \<Rightarrow> cell list option \<Rightarrow> cell list" where
  "multiselect opts dflt choice =
     (case choice of None \<Rightarrow> dflt | Some picked \<Rightarrow> filter (\<lambda>c. c \<in> set opts) picked)"

text \<open>\<^verbatim>\<open>df2 = df[df["Decision"].isin(sel)]\<close>.\<close>

definition filter_decisions :: "frame \<Rightarrow> cell list \<Rightarrow> error + frame" where
  "filter_decisions df sel =
     e_bind (getcol df ''Decision'') (\<lambda>ds. Inr (select_rows df (map (\<lambda>d. d \<in> set sel) ds)))"

text \<open>
  What the chart stage hands to the plotting library, or the note it shows instead. The
  drawing itself is the library's.
\<close>

datatype view =
  Note message | ScatterTernary frame | BarChart string "(string \<times> cell) list"

text \<open>\<^verbatim>\<open>str(x)\<close> of a cell, as an f-string prints it.\<close>

definition py_str :: "lib \<Rightarrow> cell \<Rightarrow> string" where
  "py_str L c =
     (case c of
        StrC s \<Rightarrow> s
      | IntC n \<Rightarrow> str_int n
      | FltC x \<Rightarrow> fmt_float L x
      | BoolC b \<Rightarrow> (if b then ''True'' else ''False'')
      | NaN \<Rightarrow> ''nan''
      | TimeC t \<Rightarrow> fmt_time L t
      | NaT \<Rightarrow> ''NaT'')"

text \<open>\<^verbatim>\<open>last[name]\<close> on a row: \<^verbatim>\<open>KeyError\<close> when there is no such label.\<close>

definition row_item :: "frame \<Rightarrow> (string \<rightharpoonup> cell) \<Rightarrow> string \<Rightarrow> error + cell" where
  "row_item df r name =
     (if name \<in> set (columns df)
      then Inr (case r name of None \<Rightarrow> NaN | Some c \<Rightarrow> c)
      else Inl (KeyError name))"

text \<open>\<^verbatim>\<open>last[["Wealth", "Health", "Self"]].reset_index()\<close>: the sector and its value.\<close>

definition last_sectors :: "frame \<Rightarrow> (string \<rightharpoonup> cell) \<Rightarrow> error + (string \<times> cell) list" where
  "last_sectors df r =
     e_bind (collect (map (row_item df r) [''Wealth'', ''Health'', ''Self''])) (\<lambda>vs.
     Inr (zip [''Wealth'', ''Health'', ''Self''] vs))"

text \<open>
  The sum of a numeric column, missing values skipped: an integer for a column of
  integers and booleans, a float otherwise.
\<close>

definition int_val :: "cell \<Rightarrow> int option" where
  "int_val c =
     (case c of
        IntC n \<Rightarrow> Some n
      | BoolC b \<Rightarrow> Some (if b then 1 else 0)
      | _ \<Rightarrow> None)"

definition col_sum :: "cell list \<Rightarrow> error + cell" where
  "col_sum cs =
     (if list_all (\<lambda>c. int_val c \<noteq> None) cs
      then Inr (IntC (sum_list (List.map_filter int_val cs)))
      else e_bind (collect (map num_val cs)) (\<lambda>vs.
           Inr (FltC (sum_list (List.map_filter (\<lambda>v. v) vs)))))"

text \<open>\<^verbatim>\<open>df2[["Wealth", "Health", "Self"]].sum().reset_index()\<close>.\<close>

definition sector_totals :: "frame \<Rightarrow> error + (string \<times> cell) list" where
  "sector_totals df =
     e_bind (collect (map (getcol df) [''Wealth'', ''Health'', ''Self''])) (\<lambda>cols.
     e_bind (collect (map col_sum cols)) (\<lambda>ts.
     Inr (zip [''Wealth'', ''Health'', ''Self''] ts)))"

definition plots :: "lib \<Rightarrow> frame \<Rightarrow> error + view list" where
  "plots L df2 =
     (if \<not> empty_df df2 then
        (let lst = last (rows df2) in
         e_bind (last_sectors df2 lst) (\<lambda>melt.
         e_bind (row_item df2 lst ''Decision'') (\<lambda>d.
         e_bind (row_item df2 lst ''Category'') (\<lambda>c.
         e_bind (sector_totals df2) (\<lambda>melt_totals.
         Inr [ScatterTernary df2,
              BarChart (''Raw impact for: '' @ py_str L d @ '' ('' @ py_str L c @ '')'') melt,
              BarChart ''Overall Impact for Selected Decisions'' melt_totals])))))
      else Inr [Note (StInfo ''No decisions to show.'')])"

section \<open>One run of the script\<close>

text \<open>
  Everything after the submit block: the history is loaded, summarised, shifted,
  filtered by the selection and charted.
\<close>

definition render :: "lib \<Rightarrow> timestamp \<Rightarrow> cell list option \<Rightarrow> store \<Rightarrow> error + summary \<times> view list" where
  "render L now choice st =
     e_bind (load_history L st) (\<lambda>df.
     e_bind (summarize now df) (\<lambda>sm.
     e_bind (add_shifted df) (\<lambda>df'.
     e_bind (decision_options df') (\<lambda>opts.
     e_bind (filter_decisions df' (multiselect opts opts choice)) (\<lambda>df2.
     e_bind (plots L df2) (\<lambda>vs.
     Inr (sm, vs)))))))"

text \<open>
  A run: \<open>submitted\<close> holds the form values when the button was pressed, \<open>t1\<close> and
  \<open>t2\<close> are the two readings of the clock. The file written by the submit block stays
  written when a later step raises.
\<close>

definition dashboard ::
  "lib \<Rightarrow> entry option \<Rightarrow> timestamp \<Rightarrow> timestamp \<Rightarrow> cell list option \<Rightarrow> store
   \<Rightarrow> store \<times> message list \<times> (error + summary \<times> view list)" where
  "dashboard L submitted t1 t2 choice st =
     (case submitted of
        None \<Rightarrow> (st, [], render L t2 choice st)
      | Some e \<Rightarrow>
          (let (msgs, st') = submit_block L e t1 st
           in (st', msgs, render L t2 choice st')))"

section \<open>A stand-in for the library\<close>

text \<open>
  One instance of the library interface, used where a theorem is applied to concrete
  data: the clock prints a timestamp as its day number, a whole number (or its text)
  converts back to midnight of that day, and no field is read as a float.
\<close>

definition sample_lib :: lib where
  "sample_lib =
     \<lparr>to_float = (\<lambda>s. None),
      fmt_float = (\<lambda>x. ''0.0''),
      to_time =
        (\<lambda>c. case c of
               IntC d \<Rightarrow> Some \<lparr>day = d, tod = 0\<rparr>
             | StrC s \<Rightarrow> map_option (\<lambda>d. \<lparr>day = d, tod = 0\<rparr>) (to_int s)
             | _ \<Rightarrow> None),
      fmt_time = (\<lambda>t. str_int (day t))\<rparr>"

definition sample_entry :: entry where
  "sample_entry =
     \<lparr>decision = ''Buy index fund'', category = ''Finance'', wealth = 20, health = 0,
      self = - 10\<rparr>"

text \<open>A frame as the load returns it, with one row whose timestamp is invalid.\<close>

definition sample_frame :: frame where
  "sample_frame =
     \<lparr>columns = [''Decision'', ''Category'', ''Wealth'', ''Health'', ''Self'', ''Time''],
      rows = [[''Decision'' \<mapsto> StrC ''Run'', ''Category'' \<mapsto> StrC ''Other'',
               ''Wealth'' \<mapsto> IntC (- 5), ''Health'' \<mapsto> IntC 30, ''Self'' \<mapsto> IntC (- 1),
               ''Time'' \<mapsto> TimeC \<lparr>day = 7, tod = 0\<rparr>],
              [''Decision'' \<mapsto> StrC ''Nap'', ''Category'' \<mapsto> StrC ''Other'',
               ''Wealth'' \<mapsto> IntC 0, ''Health'' \<mapsto> IntC 10, ''Self'' \<mapsto> IntC (- 2),
               ''Time'' \<mapsto> NaT]]\<rparr>"

text \<open>
  A file written before the Category column existed: five labels and one data row.
\<close>

definition legacy_store :: store where
  "legacy_store =
     Some [[''Decision'', ''Wealth'', ''Health'', ''Self'', ''Time''],
           [''Run'', ''1'', ''2'', ''3'', ''7'']]"

section \<open>Notions the properties are stated with\<close>

text \<open>
  These follow the wording of the specification, not the code: a record was logged on a
  day when its timestamp is valid and has that calendar date; the decision label of a
  record; a record whose three scores are integers, and how many of them are negative;
  a text the CSV reader keeps as text (it is not a missing-value string, a number or a
  boolean word); a stored row as the program writes it (six fields, the three scores
  integer fields), and a file that is absent or has the header row followed by such
  rows; the entry of a form submitted with the decision text left empty.
\<close>

definition keeps_text :: "lib \<Rightarrow> string \<Rightarrow> bool" where
  "keeps_text L s = (\<not> is_na s \<and> num_of L s = None \<and> \<not> true_word s \<and> \<not> false_word s)"

definition int_field :: "string \<Rightarrow> bool" where
  "int_field s = (\<not> is_na s \<and> to_int s \<noteq> None)"

definition entry_like :: "csv_row \<Rightarrow> bool" where
  "entry_like r = (length r = 6 \<and> int_field (r ! 2) \<and> int_field (r ! 3) \<and> int_field (r ! 4))"

definition well_formed :: "store \<Rightarrow> bool" where
  "well_formed st =
     (case st of
        None \<Rightarrow> True
      | Some [] \<Rightarrow> False
      | Some (l # ls) \<Rightarrow> l = header_row \<and> list_all entry_like ls)"

definition empty_entry :: entry where
  "empty_entry = \<lparr>decision = [], category = ''Work'', wealth = 0, health = 0, self = 0\<rparr>"

definition logged_on :: "int \<Rightarrow> (string \<rightharpoonup> cell) \<Rightarrow> bool" where
  "logged_on d r = (case r ''Time'' of Some (TimeC t) \<Rightarrow> day t = d | _ \<Rightarrow> False)"

definition decision_of :: "(string \<rightharpoonup> cell) \<Rightarrow> cell" where
  "decision_of r = (case r ''Decision'' of None \<Rightarrow> NaN | Some c \<Rightarrow> c)"

definition int_score :: "(string \<rightharpoonup> cell) \<Rightarrow> string \<Rightarrow> bool" where
  "int_score r name = (case r name of Some (IntC n) \<Rightarrow> True | _ \<Rightarrow> False)"

definition int_scores :: "(string \<rightharpoonup> cell) \<Rightarrow> bool" where
  "int_scores r = (int_score r ''Wealth'' \<and> int_score r ''Health'' \<and> int_score r ''Self'')"

definition negative_score :: "(string \<rightharpoonup> cell) \<Rightarrow> string \<Rightarrow> bool" where
  "negative_score r name = (case r name of Some (IntC n) \<Rightarrow> n < 0 | _ \<Rightarrow> False)"

definition negative_count :: "(string \<rightharpoonup> cell) \<Rightarrow> nat" where
  "negative_count r = length (filter (negative_score r) [''Wealth'', ''Health'', ''Self''])"

section \<open>The impact classification\<close>

lemma negative_cases:
  "negative w h s =
     (if w < 0 then [''Wealth''] else []) @ (if h < 0 then [''Health''] else []) @
     (if s < 0 then [''Self''] else [])"
  by (simp add: negative_def sectors_def)

lemma zero_cases:
  "zero w h s =
     (if w = 0 then [''Wealth''] else []) @ (if h = 0 then [''Health''] else []) @
     (if s = 0 then [''Self''] else [])"
  by (simp add: zero_def sectors_def)

text \<open>
  Claim C2. For every triple of scores, the negative list holds exactly the sector names
  whose value is below zero and the zero list exactly those whose value is zero, in the
  order Wealth, Health, Self. An error-level message is shown exactly when the negative
  list is non-empty, a warning-level message exactly when the negative list is empty and
  the zero list is not, and never both. For the scores 20, 0, -10 the negative list is
  Self, the zero list is Health, and the only message is the error-level one.
\<close>

theorem impact_classification:
  "set (negative w h s) = {n. (n = ''Wealth'' \<and> w < 0) \<or> (n = ''Health'' \<and> h < 0) \<or> (n = ''Self'' \<and> s < 0)}
   \<and> set (zero w h s) = {n. (n = ''Wealth'' \<and> w = 0) \<or> (n = ''Health'' \<and> h = 0) \<or> (n = ''Self'' \<and> s = 0)}
   \<and> distinct (negative w h s) \<and> distinct (zero w h s)
   \<and> (list_ex is_error (impact_warning w h s) = (negative w h s \<noteq> []))
   \<and> (list_ex is_warning (impact_warning w h s) = (negative w h s = [] \<and> zero w h s \<noteq> []))
   \<and> length (impact_warning w h s) \<le> 1
   \<and> negative 20 0 (- 10) = [''Self''] \<and> zero 20 0 (- 10) = [''Health'']
   \<and> impact_warning 20 0 (- 10) = [StError ''Negative impact on: Self'']"
proof -
  have n: "set (negative w h s) =
      {n. (n = ''Wealth'' \<and> w < 0) \<or> (n = ''Health'' \<and> h < 0) \<or> (n = ''Self'' \<and> s < 0)}"
    by (auto simp: negative_cases)
  have z: "set (zero w h s) =
      {n. (n = ''Wealth'' \<and> w = 0) \<or> (n = ''Health'' \<and> h = 0) \<or> (n = ''Self'' \<and> s = 0)}"
    by (auto simp: zero_cases)
  have d: "distinct (negative w h s) \<and> distinct (zero w h s)"
    by (simp add: negative_cases zero_cases)
  have e: "list_ex is_error (impact_warning w h s) = (negative w h s \<noteq> [])"
    by (simp add: impact_warning_def is_error_def)
  have u: "list_ex is_warning (impact_warning w h s) = (negative w h s = [] \<and> zero w h s \<noteq> [])"
    by (simp add: impact_warning_def is_warning_def)
  have l: "length (impact_warning w h s) \<le> 1"
    by (simp add: impact_warning_def)
  have x: "negative 20 0 (- 10) = [''Self''] \<and> zero 20 0 (- 10) = [''Health'']
      \<and> impact_warning 20 0 (- 10) = [StError ''Negative impact on: Self'']"
    by (simp add: impact_warning_def negative_cases zero_cases)
  from n z d e u l x show ?thesis by blast
qed

section \<open>The layout of the file\<close>

lemma digits_nonempty: "digits n \<noteq> []"
  by (induction n rule: digits.induct) (subst digits.simps, simp)

lemma lt10: "(d::nat) < 10 \<Longrightarrow> d \<in> {0, 1, 2, 3, 4, 5, 6, 7, 8, 9}"
  by auto

lemma digit_char_in: "d < 10 \<Longrightarrow> digit_char d \<in> set ''0123456789''"
  by (drule lt10) (auto simp: digit_char_def)

lemma digits_set: "set (digits n) \<subseteq> set ''0123456789''"
proof (induction n rule: digits.induct)
  case (1 n)
  show ?case
  proof (cases "n < 10")
    case True
    then show ?thesis using digit_char_in [of n] by (subst digits.simps) simp
  next
    case False
    have "n mod 10 < 10" by simp
    then have "digit_char (n mod 10) \<in> set ''0123456789''" by (rule digit_char_in)
    with False 1 show ?thesis by (subst digits.simps) simp
  qed
qed

lemma str_int_not_label: "str_int n \<noteq> ''Wealth''"
proof
  assume a: "str_int n = ''Wealth''"
  show False
  proof (cases "n < 0")
    case True
    with a show False by (simp add: str_int_def)
  next
    case False
    with a have "digits (nat n) = ''Wealth''" by (simp add: str_int_def)
    then have "CHR ''W'' \<in> set (digits (nat n))" by simp
    with digits_set [of "nat n"] show False by auto
  qed
qed

lemma entry_row_not_header: "entry_row L e now \<noteq> header_row"
  using str_int_not_label [of "wealth e"] by (simp add: entry_row_def header_row_def)

lemma csv_line_df_new:
  "map (csv_line L (columns (df_new e now))) (rows (df_new e now)) = [entry_row L e now]"
  by (simp add: df_new_def csv_line_def csv_field_def entry_row_def)

lemma append_entry_None: "append_entry L e now None = Some [header_row, entry_row L e now]"
  using csv_line_df_new [of L e now]
  by (simp add: append_entry_def to_csv_def path_exists_def) (simp add: df_new_def header_row_def)

lemma append_entry_Some: "append_entry L e now (Some ls) = Some (ls @ [entry_row L e now])"
  using csv_line_df_new [of L e now]
  by (simp add: append_entry_def to_csv_def path_exists_def)

text \<open>
  Claim C9. An append to a missing file creates it with the header row followed by the
  entry's row; an append to an existing file adds the entry's row after whatever the
  file held and writes no header; the entry's row is never the header row. So every
  append keeps the layout invariant: the first row of the file is the header row
  \<^verbatim>\<open>Decision,Category,Wealth,Health,Self,Time\<close> and no later row is.
\<close>

theorem append_keeps_one_header:
  "append_entry L e now None = Some [header_row, entry_row L e now]
   \<and> append_entry L e now (Some ls) = Some (ls @ [entry_row L e now])
   \<and> (one_header st \<longrightarrow> one_header (append_entry L e now st))
   \<and> entry_row L e now \<noteq> header_row"
proof -
  have "one_header (append_entry L e now st)" if h: "one_header st"
  proof (cases st)
    case None
    then show ?thesis
      using entry_row_not_header [of L e now]
      by (simp add: append_entry_None one_header_def)
  next
    case (Some ls)
    with h obtain l ls' where ls: "ls = l # ls'" by (cases ls) (auto simp: one_header_def)
    with h Some show ?thesis
      using entry_row_not_header [of L e now]
      by (auto simp: append_entry_Some one_header_def)
  qed
  then show ?thesis
    using append_entry_None append_entry_Some entry_row_not_header by blast
qed

theorem append_keeps_one_header_witness:
  "one_header (Some [header_row])
   \<and> append_entry sample_lib sample_entry \<lparr>day = 7, tod = 3\<rparr> (Some [header_row])
      = Some [header_row, [''Buy index fund'', ''Finance'', ''20'', ''0'', ''-10'', ''7'']]
   \<and> one_header (append_entry sample_lib sample_entry \<lparr>day = 7, tod = 3\<rparr> (Some [header_row]))"
proof -
  have h: "one_header (Some [header_row])" by (simp add: one_header_def)
  have r: "entry_row sample_lib sample_entry \<lparr>day = 7, tod = 3\<rparr>
      = [''Buy index fund'', ''Finance'', ''20'', ''0'', ''-10'', ''7'']"
    by (simp add: entry_row_def sample_lib_def sample_entry_def str_int_def digit_char_def
        digits.simps)
  note t = append_keeps_one_header [of sample_lib sample_entry "\<lparr>day = 7, tod = 3\<rparr>"
      "[header_row]" "Some [header_row]"]
  from t have a: "append_entry sample_lib sample_entry \<lparr>day = 7, tod = 3\<rparr> (Some [header_row])
      = Some ([header_row] @ [entry_row sample_lib sample_entry \<lparr>day = 7, tod = 3\<rparr>])"
    by blast
  from t h have o: "one_header (append_entry sample_lib sample_entry \<lparr>day = 7, tod = 3\<rparr>
      (Some [header_row]))"
    by blast
  from a r have "append_entry sample_lib sample_entry \<lparr>day = 7, tod = 3\<rparr> (Some [header_row])
      = Some [header_row, [''Buy index fund'', ''Finance'', ''20'', ''0'', ''-10'', ''7'']]"
    by simp
  with h o show ?thesis by blast
qed

section \<open>Loading\<close>

lemma e_bind_Inr: "e_bind m f = Inr y \<Longrightarrow> \<exists>x. m = Inr x \<and> f x = Inr y"
  by (cases m) (auto simp: e_bind_def)

lemma rows_setcol: "length vs = length (rows df) \<Longrightarrow> length (rows (setcol df name vs)) = length (rows df)"
  by (simp add: setcol_def)

lemma setcol_other:
  "r' \<in> set (rows (setcol df name vs)) \<Longrightarrow> name' \<noteq> name \<Longrightarrow> \<exists>r \<in> set (rows df). r' name' = r name'"
  by (auto simp: setcol_def dest!: set_zip_leftD)

lemma setcol_same_replicate:
  "r' \<in> set (rows (setcol df name (replicate n v))) \<Longrightarrow> r' name = Some v"
  by (auto simp: setcol_def dest!: set_zip_rightD)

lemma length_getcol: "getcol df name = Inr vs \<Longrightarrow> length vs = length (rows df)"
  by (auto simp: getcol_def split: if_splits)

lemma parse_time_rows: "parse_time L df = Inr df' \<Longrightarrow> length (rows df') = length (rows df)"
  by (auto simp: parse_time_def setcol_def split: if_splits dest!: e_bind_Inr length_getcol)

lemma parse_time_other:
  "parse_time L df = Inr df' \<Longrightarrow> r' \<in> set (rows df') \<Longrightarrow> name \<noteq> ''Time'' \<Longrightarrow>
   \<exists>r \<in> set (rows df). r' name = r name"
  by (auto simp: parse_time_def split: if_splits dest!: e_bind_Inr intro: setcol_other)

lemma parse_time_columns: "parse_time L df = Inr df' \<Longrightarrow> set (columns df') = set (columns df)"
  by (auto simp: parse_time_def setcol_def getcol_def split: if_splits dest!: e_bind_Inr)

lemma ensure_category_rows: "length (rows (ensure_category df)) = length (rows df)"
  by (simp add: ensure_category_def setcol_def)

lemma ensure_category_fills:
  "''Category'' \<notin> set (columns df) \<Longrightarrow> r \<in> set (rows (ensure_category df)) \<Longrightarrow>
   r ''Category'' = Some (StrC ''Uncategorized'')"
  by (auto simp: ensure_category_def dest: setcol_same_replicate)

lemma ensure_category_columns: "''Category'' \<in> set (columns (ensure_category df))"
  by (simp add: ensure_category_def setcol_def)

lemma read_csv_shape:
  assumes "read_csv L (Some ls) = Inr df" and "filter (\<lambda>r. \<not> blank_line r) ls = hdr # body"
  shows "columns df = hdr \<and> length (rows df) = length body"
  using assms by (auto simp: read_csv_def Let_def split: if_splits)

lemma read_history_Some: "read_history L (Some ls) = Inr df \<Longrightarrow> read_csv L (Some ls) = Inr df"
  by (auto simp: read_history_def read_csv_def Let_def split: list.splits if_splits)

text \<open>
  Claim C6. When the file does not exist, \<^verbatim>\<open>read_csv\<close> raises \<^verbatim>\<open>FileNotFoundError\<close>
  and the load does not fail: it returns the frame with the columns Decision, Category,
  Wealth, Health, Self and Time and no rows.
\<close>

theorem load_missing_file:
  "read_csv L None = Inl FileNotFoundError
   \<and> load_history L None =
       Inr \<lparr>columns = [''Decision'', ''Category'', ''Wealth'', ''Health'', ''Self'', ''Time''],
            rows = []\<rparr>"
  by (simp add: read_csv_def load_history_def read_history_def e_bind_def ensure_category_def
      parse_time_def empty_df_def)

theorem load_missing_file_witness:
  "rows (case load_history sample_lib None of Inr df \<Rightarrow> df) = []"
  using load_missing_file [of sample_lib] by simp

text \<open>
  The backfill itself: when the header of the stored file has no Category column and
  the load succeeds, the loaded frame has a Category column, one row per stored data
  row, and every row's category is \<^verbatim>\<open>Uncategorized\<close>.
\<close>

lemma legacy_rows_uncategorized:
  assumes "filter (\<lambda>r. \<not> blank_line r) ls = hdr # body"
    and "''Category'' \<notin> set hdr"
    and "load_history L (Some ls) = Inr df"
  shows "''Category'' \<in> set (columns df) \<and> length (rows df) = length body
    \<and> list_all (\<lambda>r. r ''Category'' = Some (StrC ''Uncategorized'')) (rows df)"
proof -
  from assms(3) obtain df0 where r: "read_history L (Some ls) = Inr df0"
    and p: "parse_time L (ensure_category df0) = Inr df"
    by (auto simp: load_history_def dest!: e_bind_Inr)
  from r have "read_csv L (Some ls) = Inr df0" by (rule read_history_Some)
  then have s: "columns df0 = hdr \<and> length (rows df0) = length body"
    using assms(1) by (rule read_csv_shape)
  with assms(2) have n: "''Category'' \<notin> set (columns df0)" by simp
  have c: "''Category'' \<in> set (columns df)"
    using parse_time_columns [OF p] ensure_category_columns [of df0] by simp
  have l: "length (rows df) = length body"
    using parse_time_rows [OF p] ensure_category_rows [of df0] s by simp
  have "r ''Category'' = Some (StrC ''Uncategorized'')" if "r \<in> set (rows df)" for r
  proof -
    from parse_time_other [OF p that, of "''Category''"]
    obtain r0 where "r0 \<in> set (rows (ensure_category df0))" and "r ''Category'' = r0 ''Category''"
      by auto
    with ensure_category_fills [OF n] show ?thesis by simp
  qed
  then have "list_all (\<lambda>r. r ''Category'' = Some (StrC ''Uncategorized'')) (rows df)"
    by (simp add: list_all_iff)
  with c l show ?thesis by blast
qed

lemma legacy_eval:
  "case load_history sample_lib
       (Some [[''Decision'', ''Wealth'', ''Health'', ''Self'', ''Time''], [''Run'', ''1'', ''2'', ''3'', ''7'']])
   of Inl e \<Rightarrow> False
    | Inr df \<Rightarrow> columns df = [''Decision'', ''Wealth'', ''Health'', ''Self'', ''Time'', ''Category'']
        \<and> map (\<lambda>r. map r (columns df)) (rows df)
          = [[Some (StrC ''Run''), Some (IntC 1), Some (IntC 2), Some (IntC 3),
              Some (TimeC \<lparr>day = 7, tod = 0\<rparr>), Some (StrC ''Uncategorized'')]]"
  by code_simp

lemma legacy_rows_uncategorized_example:
  "\<exists>df. load_history sample_lib
       (Some [[''Decision'', ''Wealth'', ''Health'', ''Self'', ''Time''], [''Run'', ''1'', ''2'', ''3'', ''7'']])
       = Inr df
     \<and> ''Category'' \<in> set (columns df) \<and> length (rows df) = 1
     \<and> list_all (\<lambda>r. r ''Category'' = Some (StrC ''Uncategorized'')) (rows df)"
proof -
  let ?ls = "[[''Decision'', ''Wealth'', ''Health'', ''Self'', ''Time''], [''Run'', ''1'', ''2'', ''3'', ''7'']]"
  from legacy_eval obtain df where l: "load_history sample_lib (Some ?ls) = Inr df"
    by (cases "load_history sample_lib (Some ?ls)") auto
  have f: "filter (\<lambda>r. \<not> blank_line r) ?ls
      = [''Decision'', ''Wealth'', ''Health'', ''Self'', ''Time''] # [[''Run'', ''1'', ''2'', ''3'', ''7'']]"
    by (simp add: blank_line_def)
  have c: "''Category'' \<notin> set [''Decision'', ''Wealth'', ''Health'', ''Self'', ''Time'']" by simp
  from legacy_rows_uncategorized [OF f c l] l show ?thesis by auto
qed

section \<open>The summary\<close>

lemma select_by_mask: "map fst (filter snd (zip xs (map p xs))) = filter p xs"
  by (induction xs) auto

lemma normalize_same_day: "(normalize_ts t = normalize_ts u) = (day t = day u)"
  by (cases t, cases u) (simp add: normalize_ts_def)

lemma count_today_datetime:
  assumes c: "''Time'' \<in> set (columns df)"
    and d: "list_all (\<lambda>r. case r ''Time'' of Some c \<Rightarrow> is_datetime c | None \<Rightarrow> False) (rows df)"
  shows "count_today now df = Inr (length (filter (logged_on (day now)) (rows df)))"
proof -
  let ?cell = "\<lambda>r. case r ''Time'' of None \<Rightarrow> NaN | Some c \<Rightarrow> c"
  let ?norm = "\<lambda>c. case c of TimeC t \<Rightarrow> TimeC (normalize_ts t) | _ \<Rightarrow> NaT"
  from c have g: "getcol df ''Time'' = Inr (map ?cell (rows df))" by (simp add: getcol_def)
  from d have a: "list_all is_datetime (map ?cell (rows df))"
    by (auto simp: list_all_iff split: option.splits)
  then have n: "dt_normalize (map ?cell (rows df)) = Inr (map ?norm (map ?cell (rows df)))"
    by (simp add: dt_normalize_def)
  have p: "(?norm (?cell r) = TimeC (normalize_ts now)) = logged_on (day now) r" for r
    by (auto simp: logged_on_def normalize_same_day split: option.splits cell.splits)
  have "count_today now df
      = Inr (length (map fst (filter snd (zip (rows df)
               (map (\<lambda>r. ?norm (?cell r) = TimeC (normalize_ts now)) (rows df))))))"
    by (simp add: count_today_def g n e_bind_def select_rows_def comp_def)
  then show ?thesis by (simp only: select_by_mask p)
qed

lemma to_datetime_is_datetime: "is_datetime (to_datetime L c)"
  by (simp add: to_datetime_def is_datetime_def split: option.splits)

lemma parse_time_datetime:
  assumes "parse_time L df0 = Inr df" and "\<not> empty_df df0"
  shows "''Time'' \<in> set (columns df)
    \<and> list_all (\<lambda>r. case r ''Time'' of Some c \<Rightarrow> is_datetime c | None \<Rightarrow> False) (rows df)"
proof -
  from assms obtain ts where g: "getcol df0 ''Time'' = Inr ts"
    and df: "df = setcol df0 ''Time'' (map (to_datetime L) ts)"
    by (auto simp: parse_time_def dest!: e_bind_Inr)
  from g have "''Time'' \<in> set (columns df0)" by (auto simp: getcol_def split: if_splits)
  then have c: "''Time'' \<in> set (columns df)" by (simp add: df setcol_def)
  have "case r ''Time'' of Some c \<Rightarrow> is_datetime c | None \<Rightarrow> False" if "r \<in> set (rows df)" for r
  proof -
    from that obtain c where "r ''Time'' = Some (to_datetime L c)"
      by (auto simp: df setcol_def dest!: set_zip_rightD)
    then show ?thesis by (simp add: to_datetime_is_datetime)
  qed
  then have "list_all (\<lambda>r. case r ''Time'' of Some c \<Rightarrow> is_datetime c | None \<Rightarrow> False) (rows df)"
    by (simp add: list_all_iff)
  with c show ?thesis by blast
qed

lemma read_csv_columns_nonempty:
  assumes "read_csv L st = Inr df"
  shows "columns df \<noteq> []"
proof (cases st)
  case None
  with assms show ?thesis by (simp add: read_csv_def)
next
  case (Some ls)
  show ?thesis
  proof (cases "filter (\<lambda>r. \<not> blank_line r) ls")
    case Nil
    with assms Some show ?thesis by (simp add: read_csv_def)
  next
    case (Cons hdr body)
    from assms Some have "read_csv L (Some ls) = Inr df" by simp
    then have c: "columns df = hdr" using Cons by (simp add: read_csv_shape)
    have "hdr \<in> set (filter (\<lambda>r. \<not> blank_line r) ls)" by (simp add: Cons)
    then have "\<not> blank_line hdr" by simp
    with c show ?thesis by (simp add: blank_line_def)
  qed
qed

lemma read_history_columns_nonempty:
  assumes "read_history L st = Inr df"
  shows "columns df \<noteq> []"
proof (cases "read_csv L st")
  case (Inl e)
  with assms show ?thesis by (cases e) (auto simp: read_history_def)
next
  case (Inr d)
  with assms have "d = df" by (simp add: read_history_def)
  with Inr show ?thesis by (auto dest: read_csv_columns_nonempty)
qed

lemma ensure_category_empty: "empty_df (ensure_category df) = (rows df = [])"
  by (auto simp: empty_df_def ensure_category_def setcol_def)

lemma load_history_cases:
  assumes "load_history L st = Inr df"
  shows "rows df = [] \<and> empty_df df
    \<or> \<not> empty_df df \<and> ''Time'' \<in> set (columns df)
      \<and> list_all (\<lambda>r. case r ''Time'' of Some c \<Rightarrow> is_datetime c | None \<Rightarrow> False) (rows df)"
proof -
  from assms obtain df0 where r: "read_history L st = Inr df0"
    and p: "parse_time L (ensure_category df0) = Inr df"
    by (auto simp: load_history_def dest!: e_bind_Inr)
  show ?thesis
  proof (cases "rows df0 = []")
    case True
    then have "empty_df (ensure_category df0)" by (simp add: ensure_category_empty)
    with p have "df = ensure_category df0" by (simp add: parse_time_def)
    with True ensure_category_rows [of df0] show ?thesis by (simp add: empty_df_def)
  next
    case False
    then have ne: "\<not> empty_df (ensure_category df0)" by (simp add: ensure_category_empty)
    from parse_time_datetime [OF p ne] have t: "''Time'' \<in> set (columns df)"
      and d: "list_all (\<lambda>r. case r ''Time'' of Some c \<Rightarrow> is_datetime c | None \<Rightarrow> False) (rows df)"
      by blast+
    from parse_time_rows [OF p] ensure_category_rows [of df0] False have "rows df \<noteq> []"
      by auto
    with t have "\<not> empty_df df" by (auto simp: empty_df_def)
    with t d show ?thesis by blast
  qed
qed

text \<open>
  Claim C4. For a frame without rows the summary takes the else branch: the three
  metrics are 0.
\<close>

theorem summary_of_empty:
  "rows df = [] \<Longrightarrow>
   summarize now df = Inr \<lparr>decisions_today = 0, avg_wealth = Some 0, avg_neg_flags = 0\<rparr>"
  by (simp add: summarize_def empty_df_def)

theorem summary_of_empty_witness:
  "rows \<lparr>columns = [''Decision'', ''Category'', ''Wealth'', ''Health'', ''Self'', ''Time''],
         rows = []\<rparr> = []
   \<and> summarize \<lparr>day = 7, tod = 3\<rparr>
       \<lparr>columns = [''Decision'', ''Category'', ''Wealth'', ''Health'', ''Self'', ''Time''],
        rows = []\<rparr>
     = Inr \<lparr>decisions_today = 0, avg_wealth = Some 0, avg_neg_flags = 0\<rparr>"
  using summary_of_empty [of "\<lparr>columns = [''Decision'', ''Category'', ''Wealth'', ''Health'', ''Self'', ''Time''],
        rows = []\<rparr>" "\<lparr>day = 7, tod = 3\<rparr>"]
  by simp

text \<open>
  Claim C3. For every frame the load returns and every reading of the clock: when the
  frame is not empty, the count of today's decisions is computed without error and is
  the number of rows whose timestamp is valid and has today's calendar date; whenever
  the summary is computed, its count is that number (0 for the empty frame). A row
  whose timestamp could not be parsed holds \<^verbatim>\<open>NaT\<close>, is not counted, and is still
  a row of the frame: the frame has one row per stored data row.
\<close>

theorem count_today_counts:
  assumes "load_history L st = Inr df"
  shows "(\<not> empty_df df \<longrightarrow>
            count_today now df = Inr (length (filter (logged_on (day now)) (rows df))))
    \<and> (\<forall>sm. summarize now df = Inr sm \<longrightarrow>
            decisions_today sm = length (filter (logged_on (day now)) (rows df)))
    \<and> (\<forall>ls hdr body. st = Some ls \<longrightarrow> filter (\<lambda>r. \<not> blank_line r) ls = hdr # body \<longrightarrow>
            length (rows df) = length body)
    \<and> (\<forall>r. r ''Time'' = Some NaT \<longrightarrow> \<not> logged_on (day now) r)"
proof -
  have a: "count_today now df = Inr (length (filter (logged_on (day now)) (rows df)))"
    if "\<not> empty_df df"
    using load_history_cases [OF assms] that by (auto intro: count_today_datetime)
  have b: "decisions_today sm = length (filter (logged_on (day now)) (rows df))"
    if s: "summarize now df = Inr sm" for sm
  proof (cases "empty_df df")
    case True
    with load_history_cases [OF assms] have "rows df = []" by blast
    with s show ?thesis by (auto simp: summary_of_empty)
  next
    case False
    with s a show ?thesis by (auto simp: summarize_def dest!: e_bind_Inr)
  qed
  have c: "length (rows df) = length body"
    if "st = Some ls" and f: "filter (\<lambda>r. \<not> blank_line r) ls = hdr # body" for ls hdr body
  proof -
    from assms that obtain df0 where r: "read_history L (Some ls) = Inr df0"
      and p: "parse_time L (ensure_category df0) = Inr df"
      by (auto simp: load_history_def dest!: e_bind_Inr)
    from r have "read_csv L (Some ls) = Inr df0" by (rule read_history_Some)
    then have "length (rows df0) = length body" using f by (simp add: read_csv_shape)
    with parse_time_rows [OF p] ensure_category_rows [of df0] show ?thesis by simp
  qed
  have d: "\<not> logged_on (day now) r" if "r ''Time'' = Some NaT" for r
    using that by (simp add: logged_on_def)
  from a b c d show ?thesis by blast
qed

lemma count_by_mask: "length (filter p xs) = length (filter (\<lambda>b. b) (map p xs))"
  by (induction xs) auto

lemma counting_eval:
  "case load_history sample_lib
       (Some [header_row,
              [''Run'', ''Other'', ''1'', ''2'', ''3'', ''7''],
              [''Nap'', ''Other'', ''1'', ''2'', ''3'', ''soon'']])
   of Inl e \<Rightarrow> False
    | Inr df \<Rightarrow> \<not> empty_df df \<and> map (logged_on 7) (rows df) = [True, False]
        \<and> map (\<lambda>r. r ''Time'') (rows df) = [Some (TimeC \<lparr>day = 7, tod = 0\<rparr>), Some NaT]"
  by code_simp

theorem count_today_counts_witness:
  "\<exists>df. load_history sample_lib
       (Some [header_row,
              [''Run'', ''Other'', ''1'', ''2'', ''3'', ''7''],
              [''Nap'', ''Other'', ''1'', ''2'', ''3'', ''soon'']]) = Inr df
     \<and> map (\<lambda>r. r ''Time'') (rows df) = [Some (TimeC \<lparr>day = 7, tod = 0\<rparr>), Some NaT]
     \<and> count_today \<lparr>day = 7, tod = 3\<rparr> df = Inr 1
     \<and> length (rows df) = 2"
proof -
  let ?st = "Some [header_row,
              [''Run'', ''Other'', ''1'', ''2'', ''3'', ''7''],
              [''Nap'', ''Other'', ''1'', ''2'', ''3'', ''soon'']]"
  from counting_eval obtain df where l: "load_history sample_lib ?st = Inr df"
    and n: "\<not> empty_df df" and m: "map (logged_on 7) (rows df) = [True, False]"
    and t: "map (\<lambda>r. r ''Time'') (rows df) = [Some (TimeC \<lparr>day = 7, tod = 0\<rparr>), Some NaT]"
    by (cases "load_history sample_lib ?st") auto
  from count_today_counts [OF l, of "\<lparr>day = 7, tod = 3\<rparr>"] n
  have "count_today \<lparr>day = 7, tod = 3\<rparr> df = Inr (length (filter (logged_on 7) (rows df)))"
    by simp
  then have c: "count_today \<lparr>day = 7, tod = 3\<rparr> df = Inr 1"
    by (simp add: count_by_mask [of "logged_on 7"] m)
  from m have "length (map (logged_on 7) (rows df)) = 2" by simp
  then have "length (rows df) = 2" by simp
  with l t c show ?thesis by (intro exI [of _ df]) simp
qed

section \<open>The average number of negative scores\<close>

lemma collect_map_Inr: "(\<And>x. x \<in> set xs \<Longrightarrow> f x = Inr (g x)) \<Longrightarrow> collect (map f xs) = Inr (map g xs)"
  by (induction xs) (simp_all add: e_bind_def)

lemma int_score_cases: "int_score r name \<Longrightarrow> \<exists>n. r name = Some (IntC n)"
  by (auto simp: int_score_def split: option.splits cell.splits)

lemma neg_flags_int:
  assumes c: "''Wealth'' \<in> set (columns df)" "''Health'' \<in> set (columns df)"
      "''Self'' \<in> set (columns df)"
    and i: "int_scores r"
  shows "neg_flags df r = Inr (negative_count r)"
proof -
  from i obtain w h s where v: "r ''Wealth'' = Some (IntC w)" "r ''Health'' = Some (IntC h)"
      "r ''Self'' = Some (IntC s)"
    by (auto simp: int_scores_def dest!: int_score_cases)
  with c show ?thesis
    by (simp add: neg_flags_def row_attr_def lt_zero_def e_bind_def negative_count_def
        negative_score_def)
qed

lemma negative_count_le: "negative_count r \<le> 3"
proof -
  have "length (filter (negative_score r) [''Wealth'', ''Health'', ''Self''])
      \<le> length [''Wealth'', ''Health'', ''Self'']"
    by (rule length_filter_le)
  then show ?thesis by (simp add: negative_count_def)
qed

lemma sum_negative_count_le: "sum_list (map negative_count rs) \<le> 3 * length rs"
proof (induction rs)
  case Nil
  show ?case by simp
next
  case (Cons r rs)
  with negative_count_le [of r] show ?case by simp
qed

text \<open>
  Claim C5. For a frame with at least one row whose Wealth, Health and Self values are
  all integers, the average of the negative flags is computed without error, it is the
  sum over the rows of the number of negative scores of the row divided by the number
  of rows, and it lies between 0 and 3. (The quotient is the exact one; pandas rounds it
  to a float.)
\<close>

theorem mean_neg_flags_is_mean:
  assumes "rows df \<noteq> []"
    and "''Wealth'' \<in> set (columns df)" "''Health'' \<in> set (columns df)"
      "''Self'' \<in> set (columns df)"
    and "list_all int_scores (rows df)"
  shows "mean_neg_flags df
      = Inr (real (sum_list (map negative_count (rows df))) / real (length (rows df)))
    \<and> 0 \<le> real (sum_list (map negative_count (rows df))) / real (length (rows df))
    \<and> real (sum_list (map negative_count (rows df))) / real (length (rows df)) \<le> 3"
proof -
  have "collect (map (neg_flags df) (rows df)) = Inr (map negative_count (rows df))"
    using assms by (intro collect_map_Inr neg_flags_int) (auto simp: list_all_iff)
  then have m: "mean_neg_flags df
      = Inr (real (sum_list (map negative_count (rows df))) / real (length (rows df)))"
    by (simp add: mean_neg_flags_def e_bind_def)
  from assms(1) have p: "0 < real (length (rows df))" by simp
  have "real (sum_list (map negative_count (rows df))) \<le> 3 * real (length (rows df))"
    using sum_negative_count_le [of "rows df"] by (metis of_nat_le_iff of_nat_mult of_nat_numeral)
  with p have u: "real (sum_list (map negative_count (rows df))) / real (length (rows df)) \<le> 3"
    by (simp add: pos_divide_le_eq)
  have l: "0 \<le> real (sum_list (map negative_count (rows df))) / real (length (rows df))"
    by simp
  from m l u show ?thesis by blast
qed

theorem mean_neg_flags_is_mean_witness:
  "rows sample_frame \<noteq> [] \<and> list_all int_scores (rows sample_frame)
   \<and> mean_neg_flags sample_frame = Inr (3 / 2)"
proof -
  have r: "rows sample_frame \<noteq> []" by (simp add: sample_frame_def)
  have c: "''Wealth'' \<in> set (columns sample_frame)" "''Health'' \<in> set (columns sample_frame)"
    "''Self'' \<in> set (columns sample_frame)"
    by (simp_all add: sample_frame_def)
  have i: "list_all int_scores (rows sample_frame)"
    by (simp add: sample_frame_def int_scores_def int_score_def)
  have n: "map negative_count (rows sample_frame) = [2, 1]"
    by (simp add: sample_frame_def negative_count_def negative_score_def)
  from mean_neg_flags_is_mean [OF r c i]
  have "mean_neg_flags sample_frame
      = Inr (real (sum_list (map negative_count (rows sample_frame))) / real (length (rows sample_frame)))"
    by blast
  also have "length (rows sample_frame) = 2" by (simp add: sample_frame_def)
  finally have "mean_neg_flags sample_frame = Inr (3 / 2)" by (simp add: n)
  with r i show ?thesis by blast
qed

section \<open>The selection\<close>

lemma getcol_decision:
  "''Decision'' \<in> set (columns df) \<Longrightarrow> getcol df ''Decision'' = Inr (map decision_of (rows df))"
  by (simp add: getcol_def decision_of_def [abs_def])

lemma select_by_map: "map fst (filter snd (zip xs (map (\<lambda>x. p (f x)) xs))) = filter (\<lambda>x. p (f x)) xs"
  by (induction xs) auto

lemma filter_decisions_eq:
  assumes "''Decision'' \<in> set (columns df)"
  shows "filter_decisions df sel
      = Inr (df\<lparr>rows := filter (\<lambda>r. decision_of r \<in> set sel) (rows df)\<rparr>)"
proof -
  have "map fst (filter snd (zip (rows df) (map ((\<lambda>d. d \<in> set sel) \<circ> decision_of) (rows df))))
      = filter (\<lambda>r. decision_of r \<in> set sel) (rows df)"
    using select_by_map [of "rows df" "\<lambda>d. d \<in> set sel" decision_of] by (simp add: comp_def)
  then show ?thesis
    by (simp add: filter_decisions_def getcol_decision [OF assms] e_bind_def select_rows_def)
qed




text \<open>
  Claim C8. For every frame with a Decision column and every list of labels, the
  filter returns the frame with exactly the rows whose decision is among the labels, in
  their original order. When no row matches, the result has no rows and the chart stage
  returns the note ``No decisions to show.'' and no error.
\<close>

theorem filter_by_labels:
  assumes "''Decision'' \<in> set (columns df)"
  shows "filter_decisions df sel
      = Inr (df\<lparr>rows := filter (\<lambda>r. decision_of r \<in> set sel) (rows df)\<rparr>)
    \<and> (list_all (\<lambda>r. decision_of r \<notin> set sel) (rows df) \<longrightarrow>
         filter_decisions df sel = Inr (df\<lparr>rows := []\<rparr>)
         \<and> plots L (df\<lparr>rows := []\<rparr>) = Inr [Note (StInfo ''No decisions to show.'')])"
proof -
  note f = filter_decisions_eq [OF assms, of sel]
  have "filter (\<lambda>r. decision_of r \<in> set sel) (rows df) = []"
    if "list_all (\<lambda>r. decision_of r \<notin> set sel) (rows df)"
    using that by (simp add: list_all_iff filter_empty_conv)
  moreover have "plots L (df\<lparr>rows := []\<rparr>) = Inr [Note (StInfo ''No decisions to show.'')]"
    by (simp add: plots_def empty_df_def)
  ultimately show ?thesis using f by simp
qed

theorem filter_by_labels_witness:
  "''Decision'' \<in> set (columns sample_frame)
   \<and> list_all (\<lambda>r. decision_of r \<notin> set [StrC ''X'']) (rows sample_frame)
   \<and> filter_decisions sample_frame [StrC ''X''] = Inr (sample_frame\<lparr>rows := []\<rparr>)
   \<and> plots sample_lib (sample_frame\<lparr>rows := []\<rparr>) = Inr [Note (StInfo ''No decisions to show.'')]
   \<and> map decision_of (rows (case filter_decisions sample_frame [StrC ''Nap''] of Inr d \<Rightarrow> d))
       = [StrC ''Nap'']"
proof -
  have c: "''Decision'' \<in> set (columns sample_frame)" by (simp add: sample_frame_def)
  have n: "list_all (\<lambda>r. decision_of r \<notin> set [StrC ''X'']) (rows sample_frame)"
    by (simp add: sample_frame_def decision_of_def)
  note t = filter_by_labels [OF c, of "[StrC ''X'']" sample_lib]
  from t n have a: "filter_decisions sample_frame [StrC ''X''] = Inr (sample_frame\<lparr>rows := []\<rparr>)"
    and b: "plots sample_lib (sample_frame\<lparr>rows := []\<rparr>) = Inr [Note (StInfo ''No decisions to show.'')]"
    by blast+
  from filter_by_labels [OF c, of "[StrC ''Nap'']" sample_lib]
  have "filter_decisions sample_frame [StrC ''Nap'']
      = Inr (sample_frame\<lparr>rows := filter (\<lambda>r. decision_of r \<in> set [StrC ''Nap'']) (rows sample_frame)\<rparr>)"
    by blast
  then have d: "map decision_of (rows (case filter_decisions sample_frame [StrC ''Nap''] of Inr d \<Rightarrow> d))
       = [StrC ''Nap'']"
    by (simp add: sample_frame_def decision_of_def)
  from c n a b d show ?thesis by blast
qed



section \<open>An older file after an append\<close>

text \<open>
  Claim C7. The backfill of the Category column is reached only when \<^verbatim>\<open>read_csv\<close>
  succeeds. The submit block appends the six fields of an entry to an existing file
  whatever its header is, so after one submission a file that was written before the
  Category column existed holds a five-field header, its five-field rows and a six-field
  row. \<^verbatim>\<open>read_csv\<close> raises a parse error on it, the \<^verbatim>\<open>except\<close> clause catches only
  the missing file, and the load fails: the older row is not loaded at all, with or
  without a category.
\<close>

theorem legacy_append_breaks_load:
  "append_entry L sample_entry now legacy_store
     = Some [[''Decision'', ''Wealth'', ''Health'', ''Self'', ''Time''],
             [''Run'', ''1'', ''2'', ''3'', ''7''],
             [''Buy index fund'', ''Finance'', ''20'', ''0'', ''-10'', fmt_time L now]]
   \<and> read_csv L (append_entry L sample_entry now legacy_store) = Inl ParserError
   \<and> load_history L (append_entry L sample_entry now legacy_store) = Inl ParserError"
proof -
  have r: "entry_row L sample_entry now
      = [''Buy index fund'', ''Finance'', ''20'', ''0'', ''-10'', fmt_time L now]"
    by (simp add: entry_row_def sample_entry_def str_int_def digit_char_def digits.simps)
  have a: "append_entry L sample_entry now legacy_store
     = Some [[''Decision'', ''Wealth'', ''Health'', ''Self'', ''Time''],
             [''Run'', ''1'', ''2'', ''3'', ''7''],
             [''Buy index fund'', ''Finance'', ''20'', ''0'', ''-10'', fmt_time L now]]"
    by (simp add: legacy_store_def append_entry_Some r)
  have c: "read_csv L (append_entry L sample_entry now legacy_store) = Inl ParserError"
    by (simp add: a read_csv_def blank_line_def)
  then have "load_history L (append_entry L sample_entry now legacy_store) = Inl ParserError"
    by (simp add: load_history_def read_history_def e_bind_def)
  with a c show ?thesis by blast
qed

section \<open>Reading back what was written\<close>

lemma digit_val_digit_char: "d < 10 \<Longrightarrow> digit_val (digit_char d) = Some d"
  by (drule lt10) (auto simp: digit_val_def digit_char_def)

lemma nat_of_digits_snoc:
  "nat_of_digits acc (cs @ [c]) =
     (case nat_of_digits acc cs of
        None \<Rightarrow> None
      | Some m \<Rightarrow> (case digit_val c of None \<Rightarrow> None | Some d \<Rightarrow> Some (10 * m + d)))"
  by (induction cs arbitrary: acc) (auto split: option.splits)

lemma nat_of_digits_digits: "nat_of_digits 0 (digits n) = Some n"
proof (induction n rule: digits.induct)
  case (1 n)
  show ?case
  proof (cases "n < 10")
    case True
    then have "digits n = [digit_char n]" by (subst digits.simps) simp
    with True show ?thesis by (simp add: digit_val_digit_char)
  next
    case False
    then have d: "digits n = digits (n div 10) @ [digit_char (n mod 10)]"
      by (subst digits.simps) simp
    from False 1 have "nat_of_digits 0 (digits (n div 10)) = Some (n div 10)" by simp
    moreover have "digit_val (digit_char (n mod 10)) = Some (n mod 10)"
      by (simp add: digit_val_digit_char)
    ultimately show ?thesis by (simp only: d nat_of_digits_snoc option.case) simp
  qed
qed

lemma digits_are_digits: "c \<in> set (digits n) \<Longrightarrow> digit_val c \<noteq> None"
proof (induction n rule: digits.induct)
  case (1 n)
  show ?case
  proof (cases "n < 10")
    case True
    then have "digits n = [digit_char n]" by (subst digits.simps) simp
    with 1(2) True show ?thesis by (simp add: digit_val_digit_char)
  next
    case False
    then have d: "digits n = digits (n div 10) @ [digit_char (n mod 10)]"
      by (subst digits.simps) simp
    have "digit_val (digit_char (n mod 10)) = Some (n mod 10)"
      by (simp add: digit_val_digit_char)
    with 1 False d show ?thesis by auto
  qed
qed

lemma digit_not_space: "digit_val c \<noteq> None \<Longrightarrow> \<not> is_space c"
  by (auto simp: digit_val_def is_space_def split: if_splits)

lemma digit_not_sign: "digit_val c \<noteq> None \<Longrightarrow> c \<noteq> CHR ''-'' \<and> c \<noteq> CHR ''+''"
  by (auto simp: digit_val_def)

lemma dropWhile_id: "s \<noteq> [] \<Longrightarrow> \<not> P (hd s) \<Longrightarrow> dropWhile P s = s"
  by (cases s) auto

lemma strip_id:
  assumes "s \<noteq> []" and "\<not> is_space (hd s)" and "\<not> is_space (last s)"
  shows "strip s = s"
proof -
  from assms have a: "dropWhile is_space s = s" by (simp add: dropWhile_id)
  from assms have "rev s \<noteq> []" and "\<not> is_space (hd (rev s))" by (simp_all add: hd_rev)
  then have "dropWhile is_space (rev s) = rev s" by (rule dropWhile_id)
  with a show ?thesis by (simp add: strip_def)
qed

lemma hd_digits: "digit_val (hd (digits n)) \<noteq> None"
  using digits_nonempty [of n] by (intro digits_are_digits [of _ n]) simp

lemma last_digits: "digit_val (last (digits n)) \<noteq> None"
  using digits_nonempty [of n] by (intro digits_are_digits [of _ n]) simp

lemma strip_str_int: "strip (str_int n) = str_int n"
proof (rule strip_id)
  show "str_int n \<noteq> []" by (simp add: str_int_def digits_nonempty)
  show "\<not> is_space (hd (str_int n))"
    using digit_not_space [OF hd_digits [of "nat n"]] by (simp add: str_int_def is_space_def)
  show "\<not> is_space (last (str_int n))"
    using digit_not_space [OF last_digits [of "nat n"]]
      digit_not_space [OF last_digits [of "nat (- n)"]]
    by (simp add: str_int_def digits_nonempty)
qed

lemma signed_digits_str_int: "signed_digits (str_int n) = Some n"
proof (cases "n < 0")
  case True
  then show ?thesis
    by (simp add: signed_digits_def str_int_def digits_nonempty nat_of_digits_digits)
next
  case False
  obtain c cs where d: "digits (nat n) = c # cs" using digits_nonempty [of "nat n"]
    by (cases "digits (nat n)") auto
  with hd_digits [of "nat n"] have "digit_val c \<noteq> None" by simp
  then have s: "c \<noteq> CHR ''-''" "c \<noteq> CHR ''+''" by (simp_all add: digit_not_sign)
  have v: "nat_of_digits 0 (c # cs) = Some (nat n)"
    using nat_of_digits_digits [of "nat n"] d by simp
  have "signed_digits (c # cs) = map_option int (nat_of_digits 0 (c # cs))"
    using s by (simp add: signed_digits_def del: nat_of_digits.simps)
  with v False d show ?thesis by (simp add: str_int_def del: nat_of_digits.simps)
qed

lemma to_int_str_int: "- (2 ^ 63) \<le> n \<Longrightarrow> n < 2 ^ 63 \<Longrightarrow> to_int (str_int n) = Some n"
  by (simp add: to_int_def strip_str_int signed_digits_str_int)

lemma str_int_chars: "c \<in> set (str_int n) \<Longrightarrow> c = CHR ''-'' \<or> digit_val c \<noteq> None"
  by (auto simp: str_int_def dest: digits_are_digits split: if_splits)

lemma na_values_not_numerals:
  "list_all (\<lambda>s. s = [] \<or> list_ex (\<lambda>c. c \<noteq> CHR ''-'' \<and> digit_val c = None) s) na_values"
  by code_simp

lemma not_na_str_int: "\<not> is_na (str_int n)"
proof
  assume "is_na (str_int n)"
  then have "str_int n \<in> set na_values" by (simp add: is_na_def)
  with na_values_not_numerals
  have "str_int n = [] \<or> list_ex (\<lambda>c. c \<noteq> CHR ''-'' \<and> digit_val c = None) (str_int n)"
    by (simp add: list_all_iff)
  moreover have "str_int n \<noteq> []" by (simp add: str_int_def digits_nonempty)
  ultimately obtain c where "c \<in> set (str_int n)" and "c \<noteq> CHR ''-''" and "digit_val c = None"
    by (auto simp: list_ex_iff)
  with str_int_chars [of c n] show False by simp
qed

lemma int_field_str_int: "- 100 \<le> n \<Longrightarrow> n \<le> 100 \<Longrightarrow> int_field (str_int n)"
  by (simp add: int_field_def not_na_str_int to_int_str_int)

lemma convert_int_str_int:
  "- 100 \<le> n \<Longrightarrow> n \<le> 100 \<Longrightarrow> convert L Int64 (str_int n) = IntC n"
  by (simp add: convert_def to_int_str_int)

lemma infer_dtype_Object: "s \<in> set fs \<Longrightarrow> keeps_text L s \<Longrightarrow> infer_dtype L fs = Object"
  by (auto simp: infer_dtype_def keeps_text_def list_all_iff num_of_def split: option.splits)

lemma infer_dtype_Int64: "list_all int_field fs \<Longrightarrow> infer_dtype L fs = Int64"
  by (simp add: infer_dtype_def int_field_def list_all_iff)

lemma convert_Object: "keeps_text L s \<Longrightarrow> convert L Object s = StrC s"
  by (simp add: convert_def keeps_text_def)

lemma categories_plain:
  "list_all (\<lambda>c. \<not> is_na c \<and> to_int c = None \<and> \<not> true_word c \<and> \<not> false_word c) categories"
  by code_simp

lemma keeps_text_category:
  assumes "list_all (\<lambda>c. to_float L c = None) categories" and "c \<in> set categories"
  shows "keeps_text L c"
  using assms categories_plain by (auto simp: keeps_text_def num_of_def list_all_iff)

lemma length_header_row: "length header_row = 6"
  by (simp add: header_row_def)

lemma six_not_blank: "length r = 6 \<Longrightarrow> \<not> blank_line r"
  by (auto simp: blank_line_def)

lemma read_csv_nonblank:
  assumes "filter (\<lambda>r. \<not> blank_line r) ls = hdr # body"
    and "(case body of [] \<Rightarrow> 0 | r # _ \<Rightarrow> length r - length hdr) = 0"
    and "\<not> list_ex (\<lambda>r. length hdr < length r) body"
    and "map (\<lambda>r. pad (length hdr) r) body = body"
  shows "read_csv L (Some ls)
    = Inr \<lparr>columns = hdr,
           rows = map (typed_row L hdr
                    (map (\<lambda>j. infer_dtype L (column_fields body j)) [0..<length hdr])) body\<rparr>"
  using assms by (simp add: read_csv_def Let_def)

lemma read_csv_entries:
  assumes "rs \<noteq> []" and "list_all entry_like rs"
  shows "read_csv L (Some (header_row # rs))
    = Inr \<lparr>columns = header_row,
           rows = map (typed_row L header_row
                    (map (\<lambda>j. infer_dtype L (column_fields rs j)) [0..<6])) rs\<rparr>"
proof -
  from assms(2) have six: "length r = 6" if "r \<in> set rs" for r
    using that by (auto simp: list_all_iff entry_like_def)
  have f: "filter (\<lambda>r. \<not> blank_line r) (header_row # rs) = header_row # rs"
    using six by (simp add: six_not_blank length_header_row)
  have l: "(case rs of [] \<Rightarrow> 0 | r # _ \<Rightarrow> length r - length header_row) = 0"
    using six by (cases rs) (auto simp: length_header_row)
  have e: "\<not> list_ex (\<lambda>r. length header_row < length r) rs"
    using six by (auto simp: list_ex_iff length_header_row)
  have d: "map (\<lambda>r. pad (length header_row) r) rs = rs"
    using six by (intro map_idI) (simp add: pad_def length_header_row)
  from read_csv_nonblank [of "header_row # rs" header_row rs L, OF f l e d]
  show ?thesis by (simp add: length_header_row)
qed

lemma upt_six: "[0..<6] = [0, 1, 2, 3, 4, 5]"
  by code_simp

lemma typed_row_six:
  "typed_row L header_row [d0, d1, d2, d3, d4, d5] [f0, f1, f2, f3, f4, f5] ''Decision''
     = Some (convert L d0 f0)
   \<and> typed_row L header_row [d0, d1, d2, d3, d4, d5] [f0, f1, f2, f3, f4, f5] ''Category''
     = Some (convert L d1 f1)
   \<and> typed_row L header_row [d0, d1, d2, d3, d4, d5] [f0, f1, f2, f3, f4, f5] ''Wealth''
     = Some (convert L d2 f2)
   \<and> typed_row L header_row [d0, d1, d2, d3, d4, d5] [f0, f1, f2, f3, f4, f5] ''Health''
     = Some (convert L d3 f3)
   \<and> typed_row L header_row [d0, d1, d2, d3, d4, d5] [f0, f1, f2, f3, f4, f5] ''Self''
     = Some (convert L d4 f4)"
  by (simp add: typed_row_def header_row_def)

lemma setcol_last:
  assumes "rows df \<noteq> []" and "length vs = length (rows df)" and "name' \<noteq> name"
  shows "last (rows (setcol df name vs)) name' = last (rows df) name'"
proof -
  from assms have z: "zip (rows df) vs \<noteq> []" by (cases "rows df"; cases vs) auto
  from assms have v: "vs \<noteq> []" by auto
  have "last (zip (rows df) vs) = (last (rows df), last vs)"
    using assms(1) v assms(2) by (simp add: last_zip)
  with z assms(3) show ?thesis by (simp add: setcol_def last_map)
qed

lemma parse_time_last:
  assumes "parse_time L df = Inr df'" and "rows df \<noteq> []" and "name \<noteq> ''Time''"
  shows "last (rows df') name = last (rows df) name"
proof (cases "empty_df df")
  case True
  with assms(1) show ?thesis by (simp add: parse_time_def)
next
  case False
  with assms(1) obtain ts where g: "getcol df ''Time'' = Inr ts"
    and d: "df' = setcol df ''Time'' (map (to_datetime L) ts)"
    by (auto simp: parse_time_def dest!: e_bind_Inr)
  from g have "length (map (to_datetime L) ts) = length (rows df)"
    by (simp add: length_getcol)
  with assms(2,3) show ?thesis unfolding d by (intro setcol_last) auto
qed

lemma entry_like_entry_row: "form_entry e \<Longrightarrow> entry_like (entry_row L e now)"
  by (simp add: entry_like_def entry_row_def form_entry_def int_field_str_int)

lemma appended_store:
  assumes "well_formed st"
  shows "\<exists>body. append_entry L e now st = Some (header_row # body @ [entry_row L e now])
    \<and> list_all entry_like body"
proof (cases st)
  case None
  then show ?thesis by (simp add: append_entry_None)
next
  case (Some ls)
  with assms obtain body where "ls = header_row # body" and "list_all entry_like body"
    by (cases ls) (auto simp: well_formed_def)
  with Some show ?thesis by (simp add: append_entry_Some)
qed

text \<open>
  The round trip does not hold for every form entry. The decision text may be left
  empty; \<^verbatim>\<open>to_csv\<close> writes it as an empty field and \<^verbatim>\<open>read_csv\<close> reads an empty
  field as the missing value, so the last loaded row has the decision \<^verbatim>\<open>NaN\<close>, not
  the empty text that was submitted.
\<close>

theorem empty_decision_counterexample:
  "form_entry empty_entry \<and> well_formed None
   \<and> (case load_history sample_lib
            (append_entry sample_lib empty_entry \<lparr>day = 7, tod = 3\<rparr> None)
       of Inl err \<Rightarrow> False
        | Inr df \<Rightarrow> last (rows df) ''Decision'' = Some NaN
            \<and> last (rows df) ''Decision'' \<noteq> Some (StrC (decision empty_entry))
            \<and> last (rows df) ''Category'' = Some (StrC (category empty_entry)))"
  by code_simp

text \<open>
  Claim C1, as the code has it. Let the form entry have a decision text that the CSV
  reader keeps as text: it is not a missing-value string (the empty text is one), not a
  number and not a boolean word. Let the file be absent, or hold the header row followed
  by rows of six fields whose three scores are integer fields, as every file written by
  this program from nothing does; and let the library read none of the five category
  names as a float. Then the append followed by the load succeeds, the loaded frame has
  rows, and its last row has the decision, category, wealth, health and self of the
  entry. The file after the append is again of that form.
\<close>

theorem append_then_load_last:
  assumes fe: "form_entry e"
    and kt: "keeps_text L (decision e)"
    and fl: "list_all (\<lambda>c. to_float L c = None) categories"
    and wf: "well_formed st"
  shows "\<exists>df. load_history L (append_entry L e now st) = Inr df \<and> rows df \<noteq> []
      \<and> last (rows df) ''Decision'' = Some (StrC (decision e))
      \<and> last (rows df) ''Category'' = Some (StrC (category e))
      \<and> last (rows df) ''Wealth'' = Some (IntC (wealth e))
      \<and> last (rows df) ''Health'' = Some (IntC (health e))
      \<and> last (rows df) ''Self'' = Some (IntC (self e))
      \<and> well_formed (append_entry L e now st)"
proof -
  define new where "new = entry_row L e now"
  from appended_store [OF wf, of L e now] obtain body
    where a: "append_entry L e now st = Some (header_row # body @ [new])"
      and b: "list_all entry_like body"
    unfolding new_def by blast
  define rs where "rs = body @ [new]"
  define g where "g = (\<lambda>j. infer_dtype L (column_fields rs j))"
  define dts where "dts = [g 0, g 1, g 2, g 3, g 4, g 5]"
  define df0 where "df0 = \<lparr>columns = header_row, rows = map (typed_row L header_row dts) rs\<rparr>"
  have cols: "columns df0 = header_row" and rws: "rows df0 = map (typed_row L header_row dts) rs"
    by (simp_all add: df0_def)
  have en: "entry_like new" unfolding new_def using fe by (rule entry_like_entry_row)
  with b have all: "list_all entry_like rs" by (simp add: rs_def)
  have rne: "rs \<noteq> []" by (simp add: rs_def)
  have st': "append_entry L e now st = Some (header_row # rs)" by (simp add: a rs_def)
  have w: "well_formed (append_entry L e now st)"
    using all by (simp add: st' well_formed_def)
  have "map (\<lambda>j. infer_dtype L (column_fields rs j)) [0..<6] = dts"
    by (simp add: upt_six dts_def g_def)
  with read_csv_entries [OF rne all, of L]
  have rc: "read_csv L (Some (header_row # rs)) = Inr df0" by (simp add: df0_def)
  then have rh: "read_history L (append_entry L e now st) = Inr df0"
    by (simp add: st' read_history_def)
  have ec: "ensure_category df0 = df0"
    by (simp add: ensure_category_def cols header_row_def)
  have r0: "rows df0 \<noteq> []" using rne by (simp add: rws)
  then have ne: "\<not> empty_df df0" by (simp add: empty_df_def cols header_row_def)
  have "''Time'' \<in> set (columns df0)" by (simp add: cols header_row_def)
  then obtain ts where gt: "getcol df0 ''Time'' = Inr ts" by (simp add: getcol_def)
  define df where "df = setcol df0 ''Time'' (map (to_datetime L) ts)"
  have pt: "parse_time L df0 = Inr df"
    using ne gt by (simp add: parse_time_def e_bind_def df_def)
  have lh: "load_history L (append_entry L e now st) = Inr df"
    by (simp add: load_history_def rh e_bind_def ec pt)
  have rd: "rows df \<noteq> []" using parse_time_rows [OF pt] r0 by auto
  have lst: "last (rows df0) = typed_row L header_row dts new"
    by (simp add: rws rs_def)
  have new: "new = [decision e, category e, str_int (wealth e), str_int (health e),
      str_int (self e), fmt_time L now]"
    by (simp add: new_def entry_row_def)
  note six = typed_row_six [of L "g 0" "g 1" "g 2" "g 3" "g 4" "g 5" "decision e"
      "category e" "str_int (wealth e)" "str_int (health e)" "str_int (self e)" "fmt_time L now"]
  have m: "new \<in> set rs" by (simp add: rs_def)
  have "new ! 0 \<in> set (column_fields rs 0)" using m by (simp add: column_fields_def)
  then have "decision e \<in> set (column_fields rs 0)" by (simp add: new)
  then have g0: "g 0 = Object" unfolding g_def using kt by (rule infer_dtype_Object)
  have kc: "keeps_text L (category e)"
    using fl fe by (intro keeps_text_category) (simp_all add: form_entry_def)
  have "new ! 1 \<in> set (column_fields rs 1)" using m by (simp add: column_fields_def)
  then have "category e \<in> set (column_fields rs 1)" by (simp add: new)
  then have "g 1 = Object" unfolding g_def using kc by (rule infer_dtype_Object)
  then have g1: "g (Suc 0) = Object" by simp
  have i2: "list_all int_field (column_fields rs 2)"
    using all by (auto simp: column_fields_def list_all_iff entry_like_def)
  have i3: "list_all int_field (column_fields rs 3)"
    using all by (auto simp: column_fields_def list_all_iff entry_like_def)
  have i4: "list_all int_field (column_fields rs 4)"
    using all by (auto simp: column_fields_def list_all_iff entry_like_def)
  have g2: "g 2 = Int64" unfolding g_def using i2 by (rule infer_dtype_Int64)
  have g3: "g 3 = Int64" unfolding g_def using i3 by (rule infer_dtype_Int64)
  have g4: "g 4 = Int64" unfolding g_def using i4 by (rule infer_dtype_Int64)
  have bounds: "- 100 \<le> wealth e" "wealth e \<le> 100" "- 100 \<le> health e" "health e \<le> 100"
    "- 100 \<le> self e" "self e \<le> 100"
    using fe by (simp_all add: form_entry_def)
  have c0: "last (rows df0) ''Decision'' = Some (StrC (decision e))"
    using six by (simp add: lst new dts_def g0 convert_Object [OF kt])
  have c1: "last (rows df0) ''Category'' = Some (StrC (category e))"
    using six by (simp add: lst new dts_def g1 convert_Object [OF kc])
  have c2: "last (rows df0) ''Wealth'' = Some (IntC (wealth e))"
    using six by (simp add: lst new dts_def g2 convert_int_str_int bounds)
  have c3: "last (rows df0) ''Health'' = Some (IntC (health e))"
    using six by (simp add: lst new dts_def g3 convert_int_str_int bounds)
  have c4: "last (rows df0) ''Self'' = Some (IntC (self e))"
    using six by (simp add: lst new dts_def g4 convert_int_str_int bounds)
  have k: "last (rows df) name = last (rows df0) name" if "name \<noteq> ''Time''" for name
    using pt r0 that by (rule parse_time_last)
  have "last (rows df) ''Decision'' = Some (StrC (decision e))"
    "last (rows df) ''Category'' = Some (StrC (category e))"
    "last (rows df) ''Wealth'' = Some (IntC (wealth e))"
    "last (rows df) ''Health'' = Some (IntC (health e))"
    "last (rows df) ''Self'' = Some (IntC (self e))"
    using c0 c1 c2 c3 c4 by (simp_all add: k)
  with lh rd w show ?thesis by blast
qed

theorem append_then_load_last_witness:
  "form_entry sample_entry \<and> keeps_text sample_lib (decision sample_entry)
   \<and> list_all (\<lambda>c. to_float sample_lib c = None) categories \<and> well_formed None
   \<and> (\<exists>df. load_history sample_lib
            (append_entry sample_lib sample_entry \<lparr>day = 7, tod = 3\<rparr> None) = Inr df
        \<and> last (rows df) ''Decision'' = Some (StrC ''Buy index fund'')
        \<and> last (rows df) ''Category'' = Some (StrC ''Finance'')
        \<and> last (rows df) ''Wealth'' = Some (IntC 20)
        \<and> last (rows df) ''Health'' = Some (IntC 0)
        \<and> last (rows df) ''Self'' = Some (IntC (- 10)))"
proof -
  have fe: "form_entry sample_entry" by (simp add: form_entry_def sample_entry_def categories_def)
  have kt: "keeps_text sample_lib (decision sample_entry)" by code_simp
  have fl: "list_all (\<lambda>c. to_float sample_lib c = None) categories"
    by (simp add: sample_lib_def categories_def)
  have wf: "well_formed None" by (simp add: well_formed_def)
  from append_then_load_last [OF fe kt fl wf, of "\<lparr>day = 7, tod = 3\<rparr>"]
  obtain df where "load_history sample_lib
        (append_entry sample_lib sample_entry \<lparr>day = 7, tod = 3\<rparr> None) = Inr df"
    and "last (rows df) ''Decision'' = Some (StrC (decision sample_entry))"
    and "last (rows df) ''Category'' = Some (StrC (category sample_entry))"
    and "last (rows df) ''Wealth'' = Some (IntC (wealth sample_entry))"
    and "last (rows df) ''Health'' = Some (IntC (health sample_entry))"
    and "last (rows df) ''Self'' = Some (IntC (self sample_entry))"
    by blast
  then have "\<exists>df. load_history sample_lib
            (append_entry sample_lib sample_entry \<lparr>day = 7, tod = 3\<rparr> None) = Inr df
        \<and> last (rows df) ''Decision'' = Some (StrC ''Buy index fund'')
        \<and> last (rows df) ''Category'' = Some (StrC ''Finance'')
        \<and> last (rows df) ''Wealth'' = Some (IntC 20)
        \<and> last (rows df) ''Health'' = Some (IntC 0)
        \<and> last (rows df) ''Self'' = Some (IntC (- 10))"
    by (intro exI [of _ df]) (simp add: sample_entry_def)
  with fe kt fl wf show ?thesis by (intro conjI)
qed

text \<open>
  The empty decision is lost for every instance of the library and every file of the
  program's own making: an empty field is read as \<^verbatim>\<open>NaN\<close> whatever type its column
  is given.
\<close>

lemma convert_empty: "convert L dt [] = NaN"
  by (cases dt)
    (simp_all add: convert_def is_na_def na_values_def to_int_def strip_def signed_digits_def)

lemma empty_decision_reads_nan:
  assumes fe: "form_entry e" and em: "decision e = []" and wf: "well_formed st"
  shows "\<exists>df. load_history L (append_entry L e now st) = Inr df \<and> rows df \<noteq> []
      \<and> last (rows df) ''Decision'' = Some NaN"
proof -
  define new where "new = entry_row L e now"
  from appended_store [OF wf, of L e now] obtain body
    where a: "append_entry L e now st = Some (header_row # body @ [new])"
      and b: "list_all entry_like body"
    unfolding new_def by blast
  define rs where "rs = body @ [new]"
  define g where "g = (\<lambda>j. infer_dtype L (column_fields rs j))"
  define dts where "dts = [g 0, g 1, g 2, g 3, g 4, g 5]"
  define df0 where "df0 = \<lparr>columns = header_row, rows = map (typed_row L header_row dts) rs\<rparr>"
  have cols: "columns df0 = header_row" and rws: "rows df0 = map (typed_row L header_row dts) rs"
    by (simp_all add: df0_def)
  have en: "entry_like new" unfolding new_def using fe by (rule entry_like_entry_row)
  with b have all: "list_all entry_like rs" by (simp add: rs_def)
  have rne: "rs \<noteq> []" by (simp add: rs_def)
  have st': "append_entry L e now st = Some (header_row # rs)" by (simp add: a rs_def)
  have "map (\<lambda>j. infer_dtype L (column_fields rs j)) [0..<6] = dts"
    by (simp add: upt_six dts_def g_def)
  with read_csv_entries [OF rne all, of L]
  have "read_csv L (Some (header_row # rs)) = Inr df0" by (simp add: df0_def)
  then have rh: "read_history L (append_entry L e now st) = Inr df0"
    by (simp add: st' read_history_def)
  have ec: "ensure_category df0 = df0"
    by (simp add: ensure_category_def cols header_row_def)
  have r0: "rows df0 \<noteq> []" using rne by (simp add: rws)
  then have ne: "\<not> empty_df df0" by (simp add: empty_df_def cols header_row_def)
  have "''Time'' \<in> set (columns df0)" by (simp add: cols header_row_def)
  then obtain ts where gt: "getcol df0 ''Time'' = Inr ts" by (simp add: getcol_def)
  define df where "df = setcol df0 ''Time'' (map (to_datetime L) ts)"
  have pt: "parse_time L df0 = Inr df"
    using ne gt by (simp add: parse_time_def e_bind_def df_def)
  have lh: "load_history L (append_entry L e now st) = Inr df"
    by (simp add: load_history_def rh e_bind_def ec pt)
  have rd: "rows df \<noteq> []" using parse_time_rows [OF pt] r0 by auto
  have lst: "last (rows df0) = typed_row L header_row dts new"
    by (simp add: rws rs_def)
  have new: "new = [decision e, category e, str_int (wealth e), str_int (health e),
      str_int (self e), fmt_time L now]"
    by (simp add: new_def entry_row_def)
  note six = typed_row_six [of L "g 0" "g 1" "g 2" "g 3" "g 4" "g 5" "decision e"
      "category e" "str_int (wealth e)" "str_int (health e)" "str_int (self e)" "fmt_time L now"]
  have "last (rows df0) ''Decision'' = Some (convert L (g 0) (decision e))"
    using six by (simp add: lst new dts_def)
  then have "last (rows df0) ''Decision'' = Some NaN" by (simp add: em convert_empty)
  moreover have "last (rows df) ''Decision'' = last (rows df0) ''Decision''"
    using pt r0 by (rule parse_time_last) simp
  ultimately have "last (rows df) ''Decision'' = Some NaN" by simp
  with lh rd show ?thesis by blast
qed

end
